theory Spec2Isabelle
  imports Complex_Main
begin

section \<open>Python strings\<close>

text \<open>
  A Python \<open>str\<close> is modelled as a \<open>string\<close>, one \<open>char\<close> per character: the character
  with code point \<open>n\<close> below 256 is the \<open>char\<close> with code \<open>n\<close>. On these code points
  \<open>str.lower\<close> maps \<open>A\<close> to \<open>Z\<close> and U+00C0 to U+00DE (without U+00D7) 32 places up. \<open>str.upper\<close>
  maps \<open>a\<close> to \<open>z\<close> and U+00E0 to U+00FE (without U+00F7) 32 places down, and U+00DF to the
  two characters \<open>SS\<close>, so the upper-case text can be longer than the text. The capitals of
  U+00B5 and U+00FF lie beyond U+00FF; like the two letters themselves they are no key of
  any table here, and the letters stand for them.
\<close>

definition lower_char :: "char \<Rightarrow> char" where
  "lower_char c =
     (let n = of_char c :: nat in
      if 65 \<le> n \<and> n \<le> 90 then char_of (n + 32)
      else if 192 \<le> n \<and> n \<le> 222 \<and> n \<noteq> 215 then char_of (n + 32)
      else c)"

definition upper_chars :: "char \<Rightarrow> string" where
  "upper_chars c =
     (let n = of_char c :: nat in
      if 97 \<le> n \<and> n \<le> 122 then [char_of (n - 32)]
      else if n = 223 then ''SS''
      else if 224 \<le> n \<and> n \<le> 254 \<and> n \<noteq> 247 then [char_of (n - 32)]
      else [c])"

definition lower :: "string \<Rightarrow> string" where
  "lower s = map lower_char s"

definition upper :: "string \<Rightarrow> string" where
  "upper s = concat (map upper_chars s)"

text \<open>\<open>s.startswith(k)\<close>.\<close>

fun startswith :: "string \<Rightarrow> string \<Rightarrow> bool" where
  "startswith s [] = True"
| "startswith [] (k # ks) = False"
| "startswith (c # cs) (k # ks) = (c = k \<and> startswith cs ks)"

text \<open>\<open>k in s\<close> on strings: \<open>k\<close> occurs in \<open>s\<close> as a contiguous run.\<close>

fun py_in :: "string \<Rightarrow> string \<Rightarrow> bool" where
  "py_in k [] = (k = [])"
| "py_in k (c # cs) = (startswith (c # cs) k \<or> py_in k cs)"

text \<open>\<open>any(keyword in text for keyword in keywords)\<close>.\<close>

definition any_in :: "string list \<Rightarrow> string \<Rightarrow> bool" where
  "any_in keywords text = list_ex (\<lambda>keyword. py_in keyword text) keywords"

section \<open>The regular expressions of \<open>_extract_dimensions\<close>\<close>

text \<open>
  The five patterns are kept as their source text (the branch taken for a match is chosen
  by substring tests on that text) together with a matcher for each. A backslash cannot
  be written inside a string literal here, so it is the character \<open>bs\<close>.
\<close>

definition bs :: char where
  "bs = CHR 0x5C"

text \<open>\<open>(\d+(?:\.\d+)?)\<close>\<close>

definition re_number :: string where
  "re_number = ''('' @ bs # ''d+(?:'' @ bs # ''.'' @ bs # ''d+)?)''"

text \<open>\<open>(\d+(?:\.\d+)?)\s*x\s*(\d+(?:\.\d+)?)\s*(?:mm|cm|m)?\<close>\<close>

definition re_pair :: string where
  "re_pair = re_number @ bs # ''s*x'' @ bs # ''s*'' @ re_number @ bs # ''s*(?:mm|cm|m)?''"

text \<open>\<open>width:?\s*(\d+(?:\.\d+)?)\<close> and its three siblings.\<close>

definition re_keyword :: "string \<Rightarrow> string" where
  "re_keyword k = k @ '':?'' @ bs # ''s*'' @ re_number"

definition patterns :: "string list" where
  "patterns = [re_pair, re_keyword ''width'', re_keyword ''height'',
               re_keyword ''radius'', re_keyword ''diameter'']"

text \<open>
  \<open>\d\<close> and \<open>\s\<close> on the code points below 256: the ten digits; and the white space of
  Python, which counts the separators 0x1C to 0x1F, the next-line character 0x85 and the
  no-break space 0xA0.
\<close>

definition is_digit :: "char \<Rightarrow> bool" where
  "is_digit c = (c \<in> set ''0123456789'')"

definition is_space :: "char \<Rightarrow> bool" where
  "is_space c = (c \<in> set [CHR 0x09, CHR 0x0A, CHR 0x0B, CHR 0x0C, CHR 0x0D,
                            CHR 0x1C, CHR 0x1D, CHR 0x1E, CHR 0x1F, CHR 0x20,
                            CHR 0x85, CHR 0xA0])"

text \<open>
  \<open>\d+(?:\.\d+)?\<close> at the head of \<open>s\<close>: the matched text and what follows it. The match is
  greedy; giving back a digit or the fraction leaves a digit or a dot as next character,
  which none of the five patterns can continue with, so backtracking never finds another
  match at the same start.
\<close>

definition match_number :: "string \<Rightarrow> (string \<times> string) option" where
  "match_number s =
     (let ds = takeWhile is_digit s; r = dropWhile is_digit s in
      if ds = [] then None
      else (case r of
              [] \<Rightarrow> Some (ds, r)
            | c # r' \<Rightarrow>
                if c = CHR ''.'' \<and> takeWhile is_digit r' \<noteq> []
                then Some (ds @ c # takeWhile is_digit r', dropWhile is_digit r')
                else Some (ds, r)))"

text \<open>\<open>(?:mm|cm|m)?\<close>: the alternatives in order, or nothing.\<close>

definition match_unit :: "string \<Rightarrow> string" where
  "match_unit s =
     (if startswith s ''mm'' then drop 2 s
      else if startswith s ''cm'' then drop 2 s
      else if startswith s ''m'' then drop 1 s
      else s)"

text \<open>The pair pattern at the head of \<open>s\<close>: its two groups and what follows the match.\<close>

definition match_pair :: "string \<Rightarrow> ((string \<times> string) \<times> string) option" where
  "match_pair s =
     (case match_number s of
        None \<Rightarrow> None
      | Some (g1, r1) \<Rightarrow>
          (case dropWhile is_space r1 of
             [] \<Rightarrow> None
           | c # r2 \<Rightarrow>
               if c = CHR ''x''
               then (case match_number (dropWhile is_space r2) of
                       None \<Rightarrow> None
                     | Some (g2, r3) \<Rightarrow> Some ((g1, g2), match_unit (dropWhile is_space r3)))
               else None))"

text \<open>\<open>k:?\s*(\d+(?:\.\d+)?)\<close> at the head of \<open>s\<close>: its group and what follows the match.\<close>

definition match_keyword :: "string \<Rightarrow> string \<Rightarrow> (string \<times> string) option" where
  "match_keyword k s =
     (if startswith s k
      then (let r = drop (length k) s;
                r1 = (case r of [] \<Rightarrow> r | c # r' \<Rightarrow> if c = CHR '':'' then r' else r)
            in match_number (dropWhile is_space r1))
      else None)"

lemma match_number_shorter:
  "match_number s = Some (g, r) \<Longrightarrow> length r < length s"
proof -
  assume m: "match_number s = Some (g, r)"
  define d where "d = dropWhile is_digit s"
  have split: "length (takeWhile is_digit s) + length d = length s"
    unfolding d_def by (metis length_append takeWhile_dropWhile_id)
  from m have ne: "takeWhile is_digit s \<noteq> []"
    by (auto simp: match_number_def Let_def split: if_splits)
  then have "0 < length (takeWhile is_digit s)"
    by simp
  with split have lt: "length d < length s"
    by linarith
  have "length r \<le> length d"
  proof (cases d)
    case Nil
    with m ne show ?thesis
      by (simp add: match_number_def Let_def d_def [symmetric])
  next
    case (Cons c r')
    have "length (dropWhile is_digit r') \<le> length r'"
      by (rule length_dropWhile_le)
    with m ne Cons show ?thesis
      by (auto simp: match_number_def Let_def d_def [symmetric] split: if_splits)
  qed
  with lt show ?thesis by linarith
qed

lemma dropWhile_shorter: "length (dropWhile P s) \<le> length s"
  by (rule length_dropWhile_le)

lemma match_unit_shorter: "length (match_unit s) \<le> length s"
  by (simp add: match_unit_def)

lemma match_pair_shorter:
  "match_pair s = Some (g, r) \<Longrightarrow> length r < length s"
proof -
  assume m: "match_pair s = Some (g, r)"
  then obtain g1 r1 where n1: "match_number s = Some (g1, r1)"
    by (auto simp: match_pair_def split: option.splits)
  with m obtain c r2 where d1: "dropWhile is_space r1 = c # r2"
    by (auto simp: match_pair_def split: list.splits)
  with m n1 obtain g2 r3 where n2: "match_number (dropWhile is_space r2) = Some (g2, r3)"
      and r: "r = match_unit (dropWhile is_space r3)"
    by (auto simp: match_pair_def split: if_splits option.splits)
  have "length r \<le> length r3"
    using r match_unit_shorter [of "dropWhile is_space r3"] dropWhile_shorter [of is_space r3]
    by simp
  also have "\<dots> < length (dropWhile is_space r2)"
    using n2 by (rule match_number_shorter)
  also have "\<dots> \<le> length r2"
    by (rule dropWhile_shorter)
  also have "\<dots> \<le> length (dropWhile is_space r1)"
    using d1 by simp
  also have "\<dots> \<le> length r1"
    by (rule dropWhile_shorter)
  also have "\<dots> < length s"
    using n1 by (rule match_number_shorter)
  finally show ?thesis .
qed

lemma match_keyword_shorter:
  "match_keyword k s = Some (g, r) \<Longrightarrow> length r < length s"
proof -
  assume m: "match_keyword k s = Some (g, r)"
  define t where "t = drop (length k) s"
  define t1 where "t1 = (case t of [] \<Rightarrow> t | c # r' \<Rightarrow> if c = CHR '':'' then r' else t)"
  from m have n: "match_number (dropWhile is_space t1) = Some (g, r)"
    unfolding match_keyword_def Let_def t_def [symmetric] t1_def [symmetric]
    by (simp split: if_splits)
  have "length t1 \<le> length t"
    by (cases t) (auto simp: t1_def)
  moreover have "length t \<le> length s"
    by (simp add: t_def)
  moreover have "length (dropWhile is_space t1) \<le> length t1"
    by (rule dropWhile_shorter)
  moreover have "length r < length (dropWhile is_space t1)"
    using n by (rule match_number_shorter)
  ultimately show ?thesis by linarith
qed

text \<open>
  \<open>re.findall\<close>: scan from the left; at each position try the pattern, and after a match
  go on behind it. None of the patterns matches the empty string.
\<close>

function findall_pair :: "string \<Rightarrow> (string \<times> string) list" where
  "findall_pair [] = []"
| "findall_pair (c # cs) =
     (case match_pair (c # cs) of
        None \<Rightarrow> findall_pair cs
      | Some (g, r) \<Rightarrow> g # findall_pair r)"
  by pat_completeness auto
termination
  by (relation "measure length") (auto dest: match_pair_shorter)

function findall_keyword :: "string \<Rightarrow> string \<Rightarrow> string list" where
  "findall_keyword k [] = []"
| "findall_keyword k (c # cs) =
     (case match_keyword k (c # cs) of
        None \<Rightarrow> findall_keyword k cs
      | Some (g, r) \<Rightarrow> g # findall_keyword k r)"
  by pat_completeness auto
termination
  by (relation "measure (\<lambda>(k, s). length s)") (auto dest: match_keyword_shorter)

declare findall_pair.simps(2) [simp del] findall_keyword.simps(2) [simp del]

text \<open>
  An element of the list \<open>re.findall\<close> returns: a tuple of the two groups for the pair
  pattern, the text of the group for a pattern with one group.
\<close>

datatype re_match = Groups string string | Group string

definition findall :: "string \<Rightarrow> string \<Rightarrow> re_match list" where
  "findall pattern s =
     (if pattern = re_pair then map (\<lambda>(a, b). Groups a b) (findall_pair s)
      else if pattern = re_keyword ''width'' then map Group (findall_keyword ''width'' s)
      else if pattern = re_keyword ''height'' then map Group (findall_keyword ''height'' s)
      else if pattern = re_keyword ''radius'' then map Group (findall_keyword ''radius'' s)
      else if pattern = re_keyword ''diameter'' then map Group (findall_keyword ''diameter'' s)
      else [])"

text \<open>
  \<open>m[i]\<close> and \<open>m\<close> itself as the argument of \<open>float\<close>. The tuple is only indexed, and the
  bare string only converted, in the branch of its own pattern (lemma \<open>findall_shape\<close>
  below), so the second equation of each function is never reached.
\<close>

fun item :: "re_match \<Rightarrow> nat \<Rightarrow> string" where
  "item (Groups a b) i = (if i = 0 then a else b)"
| "item (Group s) i = take 1 (drop i s)"

fun text_of :: "re_match \<Rightarrow> string" where
  "text_of (Group s) = s"
| "text_of (Groups a b) = []"

text \<open>
  \<open>float(s)\<close> for a text \<open>s\<close> matched by \<open>\d+(?:\.\d+)?\<close>: the decimal number it writes, as
  a real number. The rounding of \<open>float\<close> to the nearest binary float is not modelled; the
  dimensions of an interpretation are these reals.
\<close>

definition digit_value :: "char \<Rightarrow> nat" where
  "digit_value c = of_char c - 48"

definition digits_value :: "string \<Rightarrow> nat" where
  "digits_value ds = foldl (\<lambda>n c. 10 * n + digit_value c) 0 ds"

definition py_float :: "string \<Rightarrow> real" where
  "py_float s =
     (let i = takeWhile is_digit s; f = drop (length i + 1) s
      in real (digits_value i) + real (digits_value f) / 10 ^ length f)"

section \<open>Shape interpretation\<close>

record style =
  smoothness :: string
  complexity :: string

text \<open>The dictionary \<open>interpret_shape_request\<close> returns; \<open>shape_type\<close> is its key \<open>'type'\<close>.\<close>

record shape_interpretation =
  category :: string
  shape_type :: string
  dimensions :: "string \<rightharpoonup> real"
  style :: style
  description :: string

text \<open>\<open>_initialize_shape_patterns\<close>: a dictionary, iterated in insertion order.\<close>

definition shape_patterns :: "(string \<times> string list) list" where
  "shape_patterns =
     [(''organic'', [''apple'', ''leaf'', ''flower'', ''organic'', ''curved'', ''smooth'']),
      (''mechanical'', [''gear'', ''cog'', ''wheel'', ''mechanical'', ''technical'', ''precision'']),
      (''architectural'', [''house'', ''building'', ''room'', ''floor'', ''plan'', ''architectural'']),
      (''decorative'', [''mandala'', ''pattern'', ''ornament'', ''decorative'', ''artistic'']),
      (''geometric'', [''polygon'', ''triangle'', ''hexagon'', ''geometric'', ''regular''])]"

text \<open>One pass of the loop body of \<open>_extract_dimensions\<close>, for one pattern.\<close>

definition record_match :: "string \<Rightarrow> re_match list \<Rightarrow> (string \<rightharpoonup> real) \<Rightarrow> (string \<rightharpoonup> real)" where
  "record_match pattern matches dims =
     (if matches \<noteq> [] then
        (if py_in ''x'' pattern then
           dims(''width'' \<mapsto> py_float (item (hd matches) 0),
                ''height'' \<mapsto> py_float (item (hd matches) 1))
         else if py_in ''width'' pattern then dims(''width'' \<mapsto> py_float (text_of (hd matches)))
         else if py_in ''height'' pattern then dims(''height'' \<mapsto> py_float (text_of (hd matches)))
         else if py_in ''radius'' pattern then dims(''radius'' \<mapsto> py_float (text_of (hd matches)))
         else if py_in ''diameter'' pattern then dims(''diameter'' \<mapsto> py_float (text_of (hd matches)))
         else dims)
      else dims)"

fun extract_loop :: "string list \<Rightarrow> string \<Rightarrow> (string \<rightharpoonup> real) \<Rightarrow> (string \<rightharpoonup> real)" where
  "extract_loop [] text dims = dims"
| "extract_loop (pattern # rest) text dims =
     extract_loop rest text (record_match pattern (findall pattern (lower text)) dims)"

definition extract_dimensions :: "string \<Rightarrow> (string \<rightharpoonup> real)" where
  "extract_dimensions text = extract_loop patterns text Map.empty"

text \<open>The category loop of \<open>interpret_shape_request\<close>: the first category with a keyword in
  the text, else the value the variable \<open>category\<close> had before the loop.\<close>

fun select_category :: "(string \<times> string list) list \<Rightarrow> string \<Rightarrow> string \<Rightarrow> string" where
  "select_category [] description_lower current = current"
| "select_category ((cat, keywords) # rest) description_lower current =
     (if any_in keywords description_lower then cat
      else select_category rest description_lower current)"

definition shape_types :: "(string \<times> (string \<times> string list) list) list" where
  "shape_types =
     [(''organic'',
         [(''apple'', [''apple'', ''fruit'']),
          (''leaf'', [''leaf'', ''foliage'']),
          (''flower'', [''flower'', ''petal'', ''bloom''])]),
      (''mechanical'',
         [(''gear'', [''gear'', ''cog'', ''tooth'', ''wheel'']),
          (''bearing'', [''bearing'', ''ring'']),
          (''bracket'', [''bracket'', ''mount''])]),
      (''architectural'',
         [(''floorplan'', [''floor'', ''room'', ''plan'', ''house'']),
          (''facade'', [''facade'', ''front'', ''elevation'']),
          (''section'', [''section'', ''cross-section''])]),
      (''decorative'',
         [(''mandala'', [''mandala'', ''circular'', ''radial'']),
          (''spiral'', [''spiral'', ''helix'', ''coil'']),
          (''pattern'', [''pattern'', ''repeat'', ''motif''])])]"

fun first_shape :: "(string \<times> string list) list \<Rightarrow> string \<Rightarrow> string option" where
  "first_shape [] text = None"
| "first_shape ((shape, keywords) # rest) text =
     (if any_in keywords text then Some shape else first_shape rest text)"

definition identify_shape_type :: "string \<Rightarrow> string \<Rightarrow> string" where
  "identify_shape_type text cat =
     (case map_of shape_types cat of
        None \<Rightarrow> ''custom''
      | Some table \<Rightarrow> (case first_shape table text of None \<Rightarrow> ''custom'' | Some shape \<Rightarrow> shape))"

definition extract_style_modifiers :: "string \<Rightarrow> style" where
  "extract_style_modifiers text =
     \<lparr>smoothness =
        (if any_in [''smooth'', ''curved'', ''organic''] text then ''high''
         else if any_in [''sharp'', ''angular'', ''precise''] text then ''low''
         else ''medium''),
      complexity =
        (if any_in [''detailed'', ''complex'', ''intricate''] text then ''high''
         else if any_in [''simple'', ''basic'', ''minimal''] text then ''low''
         else ''medium'')\<rparr>"

definition interpret_shape_request :: "string \<Rightarrow> shape_interpretation" where
  "interpret_shape_request desc =
     (let description_lower = lower desc;
          dims = extract_dimensions desc;
          cat = select_category shape_patterns description_lower ''geometric'';
          st = identify_shape_type description_lower cat;
          sty = extract_style_modifiers description_lower
      in \<lparr>category = cat, shape_type = st, dimensions = dims, style = sty,
          description = desc\<rparr>)"


section \<open>Numbers\<close>

text \<open>
  The numbers of the vectorizer are Python floats. Their arithmetic rounds, so it is not
  the arithmetic of the reals, and it is a parameter here: a type \<open>'n\<close> of numbers with the
  four operations the source uses and the conversion \<open>fnum\<close> of an integer or of a decimal
  literal of the source into a number. What is proved for every such arithmetic holds for
  the floats of Python, infinities and NaN included. \<open>exact\<close> is the arithmetic of the reals.
  The examples below are evaluated in it, at the font sizes 100 and 50: there the floats
  give the same numbers, since the products \<open>100 * 0.6\<close>, \<open>100 * 0.8\<close>, \<open>50 * 0.6\<close> and
  \<open>50 * 0.8\<close> are rounded to 60, 80, 30 and 40, and every other number that occurs is an
  integer or a multiple of a quarter below 2000, on which the floats are exact.
\<close>

record 'n arith =
  fadd :: "'n \<Rightarrow> 'n \<Rightarrow> 'n"
  fsub :: "'n \<Rightarrow> 'n \<Rightarrow> 'n"
  fmul :: "'n \<Rightarrow> 'n \<Rightarrow> 'n"
  fdiv :: "'n \<Rightarrow> 'n \<Rightarrow> 'n"
  fnum :: "real \<Rightarrow> 'n"

definition exact :: "real arith" where
  "exact = \<lparr>fadd = (+), fsub = (-), fmul = (*), fdiv = (/), fnum = (\<lambda>x. x)\<rparr>"

section \<open>The drafting library\<close>

text \<open>
  The drawing library (ezdxf) is outside the repository. A document is modelled by the
  calls that were carried out on it, oldest first; the library itself is a parameter that
  says which call raises, and what the two read-outs used by \<open>save_document\<close> return.
  Exceptions range over the subclasses of \<open>Exception\<close>, which is what the handlers of the
  source catch.
\<close>

datatype 'n call =
    Set_units string
  | Modelspace
  | Add_layer string nat
  | Add_line "'n \<times> 'n" "'n \<times> 'n" string
  | Set_header string string
  | Saveas string

datatype exn =
    AttributeError string string
  | TypeError string
  | Exception string
  | LibraryError string

record 'n lib =
  new_raises :: "exn option"
  call_raises :: "'n call list \<Rightarrow> 'n call \<Rightarrow> exn option"
  layer_names :: "'n call list \<Rightarrow> exn + string list"
  entity_count :: "'n call list \<Rightarrow> exn + nat"

text \<open>\<open>ezdxf.new('R2010', setup=True)\<close>\<close>

definition lib_new :: "'n lib \<Rightarrow> exn + 'n call list" where
  "lib_new L = (case new_raises L of Some e \<Rightarrow> Inl e | None \<Rightarrow> Inr [])"

definition lib_call :: "'n lib \<Rightarrow> 'n call \<Rightarrow> 'n call list \<Rightarrow> exn + 'n call list" where
  "lib_call L c d = (case call_raises L d c of Some e \<Rightarrow> Inl e | None \<Rightarrow> Inr (d @ [c]))"

text \<open>A library that never raises: an in-memory surface that records the calls.\<close>

fun layer_of :: "'n call \<Rightarrow> string list" where
  "layer_of (Add_layer n c) = [n]"
| "layer_of other = []"

fun is_line :: "'n call \<Rightarrow> bool" where
  "is_line (Add_line p q l) = True"
| "is_line other = False"

definition recording_lib :: "'n lib" where
  "recording_lib =
     \<lparr>new_raises = None,
      call_raises = (\<lambda>d c. None),
      layer_names = (\<lambda>d. Inr (concat (map layer_of d))),
      entity_count = (\<lambda>d. Inr (length (filter is_line d)))\<rparr>"

text \<open>\<open>str(e)\<close>\<close>

definition quote :: char where
  "quote = CHR 0x27"

fun str :: "exn \<Rightarrow> string" where
  "str (AttributeError cls attr) =
     quote # cls @ quote # '' object has no attribute '' @ quote # attr @ [quote]"
| "str (TypeError m) = m"
| "str (Exception m) = m"
| "str (LibraryError m) = m"

text \<open>Sequencing of statements that may raise, on a state that survives the exception.\<close>

definition and_then ::
  "('s \<Rightarrow> (exn + 'a) \<times> 's) \<Rightarrow> ('a \<Rightarrow> 's \<Rightarrow> (exn + 'b) \<times> 's) \<Rightarrow> 's \<Rightarrow> (exn + 'b) \<times> 's" where
  "and_then m f s = (case m s of (Inl e, s') \<Rightarrow> (Inl e, s') | (Inr x, s') \<Rightarrow> f x s')"

section \<open>The text vectorizer\<close>

text \<open>
  \<open>_create_letter_definitions\<close>. A path is a list of points; \<open>seg\<close> writes one entry
  \<open>[(x0*scale, y0*scale), (x1*scale, y1*scale)]\<close> of the source, each product of a literal
  with the float \<open>scale\<close>.
\<close>

definition seg :: "'n arith \<Rightarrow> 'n \<Rightarrow> real \<Rightarrow> real \<Rightarrow> real \<Rightarrow> real \<Rightarrow> ('n \<times> 'n) list" where
  "seg A scale x0 y0 x1 y1 =
     [(fmul A (fnum A x0) scale, fmul A (fnum A y0) scale),
      (fmul A (fnum A x1) scale, fmul A (fnum A y1) scale)]"

definition letter_table :: "'n arith \<Rightarrow> 'n \<Rightarrow> (char \<times> ('n \<times> 'n) list list) list" where
  "letter_table A scale =
     [(CHR ''A'', [seg A scale 0 0 5 100, seg A scale 5 100 10 0, seg A scale 2.5 50 7.5 50]),
      (CHR ''R'', [seg A scale 0 0 0 100, seg A scale 0 100 6 100, seg A scale 6 100 8 90,
                   seg A scale 8 90 8 60, seg A scale 8 60 6 50, seg A scale 6 50 0 50,
                   seg A scale 6 50 10 0]),
      (CHR ''K'', [seg A scale 0 0 0 100, seg A scale 0 50 8 100, seg A scale 0 50 8 0]),
      (CHR ''C'', [seg A scale 8 20 6 0, seg A scale 6 0 2 0, seg A scale 2 0 0 20,
                   seg A scale 0 20 0 80, seg A scale 0 80 2 100, seg A scale 2 100 6 100,
                   seg A scale 6 100 8 80]),
      (CHR ''U'', [seg A scale 0 100 0 20, seg A scale 0 20 2 0, seg A scale 2 0 6 0,
                   seg A scale 6 0 8 20, seg A scale 8 20 8 100]),
      (CHR ''T'', [seg A scale 0 100 10 100, seg A scale 5 100 5 0]),
      (CHR ''I'', [seg A scale 2 0 8 0, seg A scale 5 0 5 100, seg A scale 2 100 8 100,
                   seg A scale 8 110 12 110]),
      (CHR ''O'', [seg A scale 2 0 6 0, seg A scale 6 0 8 20, seg A scale 8 20 8 80,
                   seg A scale 8 80 6 100, seg A scale 6 100 2 100, seg A scale 2 100 0 80,
                   seg A scale 0 80 0 20, seg A scale 0 20 2 0]),
      (CHR ''N'', [seg A scale 0 0 0 100, seg A scale 0 100 8 0, seg A scale 8 0 8 100]),
      (CHR ''E'', [seg A scale 0 0 0 100, seg A scale 0 100 8 100, seg A scale 0 50 6 50,
                   seg A scale 0 0 8 0]),
      (CHR ''L'', [seg A scale 0 100 0 0, seg A scale 0 0 8 0]),
      (CHR ''S'', [seg A scale 8 80 6 100, seg A scale 6 100 2 100, seg A scale 2 100 0 80,
                   seg A scale 0 80 0 60, seg A scale 0 60 2 50, seg A scale 2 50 6 50,
                   seg A scale 6 50 8 40, seg A scale 8 40 8 20, seg A scale 8 20 6 0,
                   seg A scale 6 0 2 0, seg A scale 2 0 0 20]),
      (CHR ''P'', [seg A scale 0 0 0 100, seg A scale 0 100 6 100, seg A scale 6 100 8 90,
                   seg A scale 8 90 8 60, seg A scale 8 60 6 50, seg A scale 6 50 0 50]),
      (CHR '' '', [])]"

definition create_letter_definitions :: "'n arith \<Rightarrow> (char \<times> ('n \<times> 'n) list list) list" where
  "create_letter_definitions A = (let scale = fnum A 1 in letter_table A scale)"

text \<open>\<open>self.letter_definitions\<close>, as the dictionary it is.\<close>

definition letter_definitions :: "'n arith \<Rightarrow> char \<rightharpoonup> ('n \<times> 'n) list list" where
  "letter_definitions A = map_of (create_letter_definitions A)"

record 'n text_info =
  info_text :: string
  info_font_size :: 'n
  info_position :: "'n \<times> 'n"
  info_width :: 'n
  info_height :: 'n
  info_layer :: string

text \<open>
  The dictionary \<open>vectorize_text\<close> returns. The messages of the source start with a
  pictogram, which is left out here.
\<close>

datatype 'n vresult =
    Vectorized (v_success: bool) (v_message: string) (v_file_path: string)
      (v_text_info: "'n text_info")
  | Vector_error (v_success: bool) (v_message: string) (v_error: string)

text \<open>The inner loop: one \<open>add_line\<close> for every path of the letter with two points or more.\<close>

fun draw_paths ::
  "'n arith \<Rightarrow> 'n lib \<Rightarrow> ('n \<times> 'n) list list \<Rightarrow> 'n \<Rightarrow> 'n \<Rightarrow> 'n \<Rightarrow> string \<Rightarrow> 'n call list
   \<Rightarrow> exn + 'n call list" where
  "draw_paths A L [] current_x y scale_factor layer_name d = Inr d"
| "draw_paths A L (path # paths) current_x y scale_factor layer_name d =
     (if length path \<ge> 2 then
        (case lib_call L
                (Add_line (fadd A current_x (fmul A (fst (path ! 0)) scale_factor),
                           fadd A y (fmul A (snd (path ! 0)) scale_factor))
                          (fadd A current_x (fmul A (fst (path ! 1)) scale_factor),
                           fadd A y (fmul A (snd (path ! 1)) scale_factor))
                          layer_name) d of
           Inl e \<Rightarrow> Inl e
         | Inr d' \<Rightarrow> draw_paths A L paths current_x y scale_factor layer_name d')
      else draw_paths A L paths current_x y scale_factor layer_name d)"

text \<open>
  The loop over the characters of \<open>text.upper()\<close>: the cursor \<open>current_x\<close> and the document
  are its state; it returns both.
\<close>

fun draw_chars ::
  "'n arith \<Rightarrow> 'n lib \<Rightarrow> string \<Rightarrow> 'n \<Rightarrow> 'n \<Rightarrow> 'n \<Rightarrow> string \<Rightarrow> 'n \<Rightarrow> 'n call list
   \<Rightarrow> exn + 'n \<times> 'n call list" where
  "draw_chars A L [] font_size letter_spacing y layer_name current_x d = Inr (current_x, d)"
| "draw_chars A L (c # cs) font_size letter_spacing y layer_name current_x d =
     (case (case letter_definitions A c of
              Some paths \<Rightarrow>
                draw_paths A L paths current_x y (fdiv A font_size (fnum A 100)) layer_name d
            | None \<Rightarrow> Inr d) of
        Inl e \<Rightarrow> Inl e
      | Inr d' \<Rightarrow>
          draw_chars A L cs font_size letter_spacing y layer_name
            (fadd A current_x letter_spacing) d')"

text \<open>The body of the \<open>try\<close> block of \<open>vectorize_text\<close>, from the new document on.\<close>

definition vectorize_steps ::
  "'n arith \<Rightarrow> 'n lib \<Rightarrow> string \<Rightarrow> string \<Rightarrow> 'n \<Rightarrow> string \<Rightarrow> 'n call list
   \<Rightarrow> (exn + 'n vresult) \<times> 'n call list" where
  "vectorize_steps A L text output_path font_size layer_name =
     and_then (\<lambda>d. case lib_call L (Set_units ''MM'') d of
                      Inl e \<Rightarrow> (Inl e, d) | Inr d' \<Rightarrow> (Inr (), d')) (\<lambda>_.
     and_then (\<lambda>d. case lib_call L Modelspace d of
                      Inl e \<Rightarrow> (Inl e, d) | Inr d' \<Rightarrow> (Inr (), d')) (\<lambda>_.
     and_then (\<lambda>d. case lib_call L (Add_layer layer_name 2) d of
                      Inl e \<Rightarrow> (Inl e, d) | Inr d' \<Rightarrow> (Inr (), d')) (\<lambda>_.
       let letter_width = fmul A font_size (fnum A 0.6);
           letter_spacing = fmul A font_size (fnum A 0.8);
           text_width = fsub A (fmul A (fnum A (real (length text))) letter_spacing)
                               (fsub A letter_spacing letter_width);
           center_x = fnum A 1000;
           center_y = fnum A 1000;
           height_units = font_size;
           position = (fsub A center_x (fdiv A text_width (fnum A 2)),
                       fsub A center_y (fdiv A height_units (fnum A 2)))
       in
     and_then (\<lambda>d. case draw_chars A L (upper text) font_size letter_spacing (snd position)
                             layer_name (fst position) d of
                      Inl e \<Rightarrow> (Inl e, d) | Inr (current_x, d') \<Rightarrow> (Inr (), d')) (\<lambda>_.
     and_then (\<lambda>d. case lib_call L (Saveas output_path) d of
                      Inl e \<Rightarrow> (Inl e, d) | Inr d' \<Rightarrow> (Inr (), d')) (\<lambda>_ d.
       (Inr (Vectorized True (''Texto vectorizado exitosamente: '' @ text) output_path
               \<lparr>info_text = text, info_font_size = font_size, info_position = position,
                info_width = text_width, info_height = height_units,
                info_layer = layer_name\<rparr>), d))))))"

text \<open>
  \<open>vectorize_text\<close>: the \<open>try\<close> block and its handler. The second component is the
  document as the calls left it (empty when \<open>ezdxf.new\<close> raised); \<open>Inl\<close> would be an
  exception that leaves the function.
\<close>

definition vectorize_text ::
  "'n arith \<Rightarrow> 'n lib \<Rightarrow> string \<Rightarrow> string \<Rightarrow> 'n \<Rightarrow> string
   \<Rightarrow> (exn + 'n vresult) \<times> 'n call list" where
  "vectorize_text A L text output_path font_size layer_name =
     (case (case lib_new L of
              Inl e \<Rightarrow> (Inl e, [])
            | Inr d \<Rightarrow> vectorize_steps A L text output_path font_size layer_name d) of
        (Inl e, d) \<Rightarrow>
          (Inr (Vector_error False (''Error vectorizando texto: '' @ str e) (str e)), d)
      | (Inr r, d) \<Rightarrow> (Inr r, d))"

section \<open>The shape generator\<close>

text \<open>A value of a metadata dictionary; \<open>Dim_text w h\<close> is the text \<open>f"{w}x{h}mm"\<close>.\<close>

datatype pyval = Str string | Num real | Dim_text real real

type_synonym gen_result = "(string \<times> pyval) list"

text \<open>
  The fields of \<open>Advanced2DShapeGenerator\<close> that change: \<open>self.doc\<close> (\<open>None\<close> at first) and
  whether \<open>self.msp\<close> has been assigned. The generator draws no line, so the type of the
  numbers in its document does not matter; it is fixed to the reals.
\<close>

record generator =
  gen_doc :: "real call list option"
  gen_msp :: bool

definition new_generator :: generator where
  "new_generator = \<lparr>gen_doc = None, gen_msp = False\<rparr>"

fun attribute :: "'n call \<Rightarrow> string" where
  "attribute (Set_units u) = ''units''"
| "attribute Modelspace = ''modelspace''"
| "attribute (Add_layer n c) = ''layers''"
| "attribute (Add_line p q l) = ''add_line''"
| "attribute (Set_header k v) = ''header''"
| "attribute (Saveas f) = ''saveas''"

text \<open>A statement that uses \<open>self.doc\<close>.\<close>

definition doc_call :: "real lib \<Rightarrow> real call \<Rightarrow> generator \<Rightarrow> (exn + unit) \<times> generator" where
  "doc_call L c g =
     (case gen_doc g of
        None \<Rightarrow> (Inl (AttributeError ''NoneType'' (attribute c)), g)
      | Some d \<Rightarrow>
          (case lib_call L c d of
             Inl e \<Rightarrow> (Inl e, g)
           | Inr d' \<Rightarrow> (Inr (), g\<lparr>gen_doc := Some d'\<rparr>)))"

text \<open>\<open>create_document\<close>, called with its default \<open>units_type = 'mm'\<close>.\<close>

definition create_document :: "real lib \<Rightarrow> generator \<Rightarrow> (exn + unit) \<times> generator" where
  "create_document L =
     and_then (\<lambda>g. case lib_new L of
                      Inl e \<Rightarrow> (Inl e, g)
                    | Inr d \<Rightarrow> (Inr (), g\<lparr>gen_doc := Some d\<rparr>)) (\<lambda>_.
     and_then (doc_call L (Set_units ''MM'')) (\<lambda>_.
     and_then (\<lambda>g. case doc_call L Modelspace g of
                      (Inl e, g') \<Rightarrow> (Inl e, g')
                    | (Inr u, g') \<Rightarrow> (Inr (), g'\<lparr>gen_msp := True\<rparr>)) (\<lambda>_.
     and_then (doc_call L (Add_layer ''CUT'' 1)) (\<lambda>_.
     and_then (doc_call L (Add_layer ''ENGRAVE'' 2)) (\<lambda>_.
     doc_call L (Add_layer ''MARK'' 3))))))"

text \<open>
  The three methods of \<open>SpecializedShapes\<close>. Their numbers are the reals of the
  interpretation, with the arithmetic of the reals.
\<close>

definition create_apple_logo :: "(string \<rightharpoonup> real) \<Rightarrow> style \<Rightarrow> gen_result" where
  "create_apple_logo dims sty =
     [(''type'', Str ''apple_logo''), (''method'', Str ''bezier_curves''),
      (''complexity'', Str ''high'')]"

definition create_gear :: "(string \<rightharpoonup> real) \<Rightarrow> style \<Rightarrow> gen_result" where
  "create_gear dims sty =
     (let radius = (case dims ''radius'' of None \<Rightarrow> 50 | Some r \<Rightarrow> r);
          teeth = (case dims ''teeth'' of None \<Rightarrow> 12 | Some t \<Rightarrow> t);
          pitch_diameter = radius * 2;
          tooth_height = radius * 0.2
      in [(''type'', Str ''gear''), (''teeth_count'', Num teeth),
          (''pitch_diameter'', Num pitch_diameter), (''tooth_height'', Num tooth_height),
          (''method'', Str ''parametric_generation'')])"

definition create_bedroom_floorplan :: "(string \<rightharpoonup> real) \<Rightarrow> style \<Rightarrow> gen_result" where
  "create_bedroom_floorplan dims sty =
     (let width = (case dims ''width'' of None \<Rightarrow> 4000 | Some w \<Rightarrow> w);
          height = (case dims ''height'' of None \<Rightarrow> 3000 | Some h \<Rightarrow> h)
      in [(''type'', Str ''floorplan''), (''room_type'', Str ''bedroom''),
          (''dimensions'', Dim_text width height),
          (''method'', Str ''architectural_standards'')])"

text \<open>
  A call \<open>self._create_leaf_shape(...)\<close> and its like: the class defines no method of that
  name, in no file of the repository, so looking the name up on \<open>self\<close> raises
  \<open>AttributeError\<close> before any argument is evaluated.
\<close>

definition missing_method :: "string \<Rightarrow> exn + gen_result" where
  "missing_method name = Inl (AttributeError ''Advanced2DShapeGenerator'' name)"

definition generate_organic_shape ::
  "string \<Rightarrow> (string \<rightharpoonup> real) \<Rightarrow> style \<Rightarrow> exn + gen_result" where
  "generate_organic_shape st dims sty =
     (if st = ''apple'' then Inr (create_apple_logo dims sty)
      else if st = ''leaf'' then missing_method ''_create_leaf_shape''
      else missing_method ''_create_organic_blob'')"

definition generate_mechanical_shape ::
  "string \<Rightarrow> (string \<rightharpoonup> real) \<Rightarrow> style \<Rightarrow> exn + gen_result" where
  "generate_mechanical_shape st dims sty =
     (if st = ''gear'' then Inr (create_gear dims sty)
      else missing_method ''_create_mechanical_part'')"

definition generate_architectural_shape ::
  "string \<Rightarrow> (string \<rightharpoonup> real) \<Rightarrow> style \<Rightarrow> exn + gen_result" where
  "generate_architectural_shape st dims sty =
     (if st = ''floorplan'' then Inr (create_bedroom_floorplan dims sty)
      else missing_method ''_create_architectural_element'')"

definition generate_decorative_shape ::
  "string \<Rightarrow> (string \<rightharpoonup> real) \<Rightarrow> style \<Rightarrow> exn + gen_result" where
  "generate_decorative_shape st dims sty =
     (if st = ''mandala'' then missing_method ''_create_mandala''
      else if st = ''spiral'' then missing_method ''_create_spiral''
      else missing_method ''_create_decorative_pattern'')"

definition generate_geometric_shape ::
  "string \<Rightarrow> (string \<rightharpoonup> real) \<Rightarrow> style \<Rightarrow> exn + gen_result" where
  "generate_geometric_shape st dims sty = missing_method ''_create_polygon''"

text \<open>
  \<open>generate_shape\<close>. It has no handler: \<open>Inl\<close> in the first component is an exception that
  reaches the caller.
\<close>

definition generate_shape ::
  "real lib \<Rightarrow> shape_interpretation \<Rightarrow> generator \<Rightarrow> (exn + gen_result) \<times> generator" where
  "generate_shape L interp =
     (let cat = category interp;
          st = shape_type interp;
          dims = dimensions interp;
          sty = style interp
      in and_then (\<lambda>g. if gen_doc g = None then create_document L g else (Inr (), g)) (\<lambda>_ g.
           (if cat = ''organic'' then generate_organic_shape st dims sty
            else if cat = ''mechanical'' then generate_mechanical_shape st dims sty
            else if cat = ''architectural'' then generate_architectural_shape st dims sty
            else if cat = ''decorative'' then generate_decorative_shape st dims sty
            else generate_geometric_shape st dims sty, g)))"

datatype save_result =
    Saved (s_success: bool) (s_message: string) (s_file_path: string)
      (s_layers: "string list") (s_entities_count: nat)
  | Save_error (s_success: bool) (s_message: string) (s_error: string)

text \<open>The \<open>try\<close> block of \<open>save_document\<close>.\<close>

definition save_steps :: "real lib \<Rightarrow> string \<Rightarrow> generator \<Rightarrow> (exn + save_result) \<times> generator" where
  "save_steps L output_path =
     and_then (\<lambda>g. if gen_doc g = None then (Inl (Exception ''No document to save''), g)
                    else (Inr (), g)) (\<lambda>_.
     and_then (doc_call L (Set_header ''$CUSTOMPROPERTYTAG''
                             ''Generated by Ark Cutt Advanced 2D Generator'')) (\<lambda>_.
     and_then (doc_call L (Saveas output_path)) (\<lambda>_.
     and_then (\<lambda>g. (case gen_doc g of
                       None \<Rightarrow> Inl (AttributeError ''NoneType'' ''layers'')
                     | Some d \<Rightarrow> layer_names L d, g)) (\<lambda>layers.
     and_then (\<lambda>g. (case gen_doc g of
                       None \<Rightarrow> Inl (TypeError (quote # ''NoneType'' @ quote # '' object is not iterable''))
                     | Some d \<Rightarrow>
                         if gen_msp g then entity_count L d
                         else Inl (TypeError (quote # ''NoneType'' @ quote # '' object is not iterable'')), g)) (\<lambda>n g.
       (Inr (Saved True ''Advanced shape generated successfully'' output_path layers n),
        g))))))"

definition save_document :: "real lib \<Rightarrow> string \<Rightarrow> generator \<Rightarrow> (exn + save_result) \<times> generator" where
  "save_document L output_path g =
     (case save_steps L output_path g of
        (Inl e, g') \<Rightarrow>
          (Inr (Save_error False (''Error saving advanced shape: '' @ str e) (str e)), g')
      | (Inr r, g') \<Rightarrow> (Inr r, g'))"

section \<open>The agent\<close>

datatype presult =
    Processed (p_success: bool) (p_message: string) (p_interpretation: shape_interpretation)
      (p_generation_result: gen_result) (p_file_info: save_result)
  | Process_error (p_success: bool) (p_message: string) (p_error: string)

text \<open>The \<open>try\<close> block of \<open>process_request\<close>.\<close>

definition process_steps ::
  "real lib \<Rightarrow> string \<Rightarrow> string \<Rightarrow> generator \<Rightarrow> (exn + presult) \<times> generator" where
  "process_steps L desc output_path =
     (let interp = interpret_shape_request desc in
      and_then (generate_shape L interp) (\<lambda>result.
      and_then (save_document L output_path) (\<lambda>save_result g.
        (Inr (Processed (s_success save_result) (s_message save_result) interp result
                save_result), g))))"

definition process_request ::
  "real lib \<Rightarrow> string \<Rightarrow> string \<Rightarrow> generator \<Rightarrow> (exn + presult) \<times> generator" where
  "process_request L desc output_path g =
     (case process_steps L desc output_path g of
        (Inl e, g') \<Rightarrow>
          (Inr (Process_error False (''Error processing shape request: '' @ str e) (str e)),
           g')
      | (Inr r, g') \<Rightarrow> (Inr r, g'))"


section \<open>The drawing calls the specification asks for\<close>

text \<open>
  Written from the specification, to be compared with the loop of \<open>vectorize_text\<close>: the
  line for one segment of a glyph, scaled by \<open>font_size / 100\<close> and moved to the cursor and
  to the \<open>y\<close> of the starting corner; the lines of one character, one per segment of its
  glyph and none for a character without glyph; and the cursor after \<open>i\<close> characters, the
  advance added \<open>i\<close> times to the \<open>x\<close> of the starting corner.
\<close>

definition spec_segment_line ::
  "'n arith \<Rightarrow> 'n \<Rightarrow> 'n \<Rightarrow> 'n \<Rightarrow> string \<Rightarrow> ('n \<times> 'n) list \<Rightarrow> 'n call" where
  "spec_segment_line A font_size cursor y layer_name p =
     Add_line (fadd A cursor (fmul A (fst (p ! 0)) (fdiv A font_size (fnum A 100))),
               fadd A y (fmul A (snd (p ! 0)) (fdiv A font_size (fnum A 100))))
              (fadd A cursor (fmul A (fst (p ! 1)) (fdiv A font_size (fnum A 100))),
               fadd A y (fmul A (snd (p ! 1)) (fdiv A font_size (fnum A 100))))
              layer_name"

definition spec_glyph_lines ::
  "'n arith \<Rightarrow> 'n \<Rightarrow> 'n \<Rightarrow> 'n \<Rightarrow> string \<Rightarrow> char \<Rightarrow> 'n call list" where
  "spec_glyph_lines A font_size cursor y layer_name c =
     (case letter_definitions A c of
        None \<Rightarrow> []
      | Some segments \<Rightarrow> map (spec_segment_line A font_size cursor y layer_name) segments)"

definition spec_cursor :: "'n arith \<Rightarrow> 'n \<Rightarrow> 'n \<Rightarrow> nat \<Rightarrow> 'n" where
  "spec_cursor A start advance i = ((\<lambda>x. fadd A x advance) ^^ i) start"

text \<open>Both ends of a line lie in the box \<open>[x_lo, x_hi] \<times> [y_lo, y_hi]\<close>.\<close>

fun line_within :: "real \<Rightarrow> real \<Rightarrow> real \<Rightarrow> real \<Rightarrow> real call \<Rightarrow> bool" where
  "line_within x_lo x_hi y_lo y_hi (Add_line p q l) =
     (x_lo \<le> fst p \<and> fst p \<le> x_hi \<and> x_lo \<le> fst q \<and> fst q \<le> x_hi
      \<and> y_lo \<le> snd p \<and> snd p \<le> y_hi \<and> y_lo \<le> snd q \<and> snd q \<le> y_hi)"
| "line_within x_lo x_hi y_lo y_hi other = False"

text \<open>A horizontal line at height \<open>v\<close>.\<close>

fun line_at_y :: "real \<Rightarrow> real call \<Rightarrow> bool" where
  "line_at_y v (Add_line p q l) = (snd p = v \<and> snd q = v)"
| "line_at_y v other = False"

section \<open>Dimension extraction\<close>

text \<open>
  Each pattern text selects its own branch of the \<open>if\<close> chain: the letter \<open>x\<close> occurs
  in the pair pattern only, and each keyword only in its own pattern.
\<close>

lemma patterns_distinct: "distinct patterns"
  by code_simp

lemma findall_simps:
  "findall re_pair s = map (\<lambda>(a, b). Groups a b) (findall_pair s)"
  "findall (re_keyword ''width'') s = map Group (findall_keyword ''width'' s)"
  "findall (re_keyword ''height'') s = map Group (findall_keyword ''height'' s)"
  "findall (re_keyword ''radius'') s = map Group (findall_keyword ''radius'' s)"
  "findall (re_keyword ''diameter'') s = map Group (findall_keyword ''diameter'' s)"
  using patterns_distinct by (auto simp: findall_def patterns_def)

lemma branch_pair: "py_in ''x'' re_pair"
  by code_simp

lemma branch_width: "\<not> py_in ''x'' (re_keyword ''width'')" "py_in ''width'' (re_keyword ''width'')"
  by code_simp+

lemma branch_height:
  "\<not> py_in ''x'' (re_keyword ''height'')" "\<not> py_in ''width'' (re_keyword ''height'')"
  "py_in ''height'' (re_keyword ''height'')"
  by code_simp+

lemma branch_radius:
  "\<not> py_in ''x'' (re_keyword ''radius'')" "\<not> py_in ''width'' (re_keyword ''radius'')"
  "\<not> py_in ''height'' (re_keyword ''radius'')" "py_in ''radius'' (re_keyword ''radius'')"
  by code_simp+

lemma branch_diameter:
  "\<not> py_in ''x'' (re_keyword ''diameter'')" "\<not> py_in ''width'' (re_keyword ''diameter'')"
  "\<not> py_in ''height'' (re_keyword ''diameter'')" "\<not> py_in ''radius'' (re_keyword ''diameter'')"
  "py_in ''diameter'' (re_keyword ''diameter'')"
  by code_simp+

text \<open>So a tuple is only indexed, and a bare string only converted, where it is one.\<close>

lemma findall_shape:
  assumes "pattern \<in> set patterns" "m \<in> set (findall pattern s)"
  shows "if py_in ''x'' pattern then \<exists>a b. m = Groups a b else \<exists>g. m = Group g"
proof -
  from assms(1) consider "pattern = re_pair" | "pattern = re_keyword ''width''"
    | "pattern = re_keyword ''height''" | "pattern = re_keyword ''radius''"
    | "pattern = re_keyword ''diameter''"
    by (auto simp: patterns_def)
  then show ?thesis
  proof cases
    case 1
    with assms(2) show ?thesis by (auto simp: findall_simps branch_pair)
  next
    case 2
    with assms(2) show ?thesis by (auto simp: findall_simps branch_width)
  next
    case 3
    with assms(2) show ?thesis by (auto simp: findall_simps branch_height)
  next
    case 4
    with assms(2) show ?thesis by (auto simp: findall_simps branch_radius)
  next
    case 5
    with assms(2) show ?thesis by (auto simp: findall_simps branch_diameter)
  qed
qed

lemma record_pair:
  "record_match re_pair (findall re_pair s) dims =
     (case findall_pair s of
        [] \<Rightarrow> dims
      | (a, b) # _ \<Rightarrow> dims(''width'' \<mapsto> py_float a, ''height'' \<mapsto> py_float b))"
  by (simp add: record_match_def findall_simps branch_pair split: list.splits)

lemma record_width:
  "record_match (re_keyword ''width'') (findall (re_keyword ''width'') s) dims =
     (case findall_keyword ''width'' s of [] \<Rightarrow> dims | w # _ \<Rightarrow> dims(''width'' \<mapsto> py_float w))"
  by (simp add: record_match_def findall_simps branch_width split: list.splits)

lemma record_height:
  "record_match (re_keyword ''height'') (findall (re_keyword ''height'') s) dims =
     (case findall_keyword ''height'' s of [] \<Rightarrow> dims | w # _ \<Rightarrow> dims(''height'' \<mapsto> py_float w))"
  by (simp add: record_match_def findall_simps branch_height split: list.splits)

lemma record_radius:
  "record_match (re_keyword ''radius'') (findall (re_keyword ''radius'') s) dims =
     (case findall_keyword ''radius'' s of [] \<Rightarrow> dims | w # _ \<Rightarrow> dims(''radius'' \<mapsto> py_float w))"
  by (simp add: record_match_def findall_simps branch_radius split: list.splits)

lemma record_diameter:
  "record_match (re_keyword ''diameter'') (findall (re_keyword ''diameter'') s) dims =
     (case findall_keyword ''diameter'' s of [] \<Rightarrow> dims | w # _ \<Rightarrow> dims(''diameter'' \<mapsto> py_float w))"
  by (simp add: record_match_def findall_simps branch_diameter split: list.splits)

lemmas record_simps = record_pair record_width record_height record_radius record_diameter

lemma extract_dimensions_unfold:
  "extract_dimensions text =
     (let t = lower text;
          d1 = (case findall_pair t of [] \<Rightarrow> Map.empty
                | (a, b) # _ \<Rightarrow> [''width'' \<mapsto> py_float a, ''height'' \<mapsto> py_float b]);
          d2 = (case findall_keyword ''width'' t of [] \<Rightarrow> d1 | w # _ \<Rightarrow> d1(''width'' \<mapsto> py_float w));
          d3 = (case findall_keyword ''height'' t of [] \<Rightarrow> d2 | w # _ \<Rightarrow> d2(''height'' \<mapsto> py_float w));
          d4 = (case findall_keyword ''radius'' t of [] \<Rightarrow> d3 | w # _ \<Rightarrow> d3(''radius'' \<mapsto> py_float w))
      in (case findall_keyword ''diameter'' t of [] \<Rightarrow> d4 | w # _ \<Rightarrow> d4(''diameter'' \<mapsto> py_float w)))"
  by (simp add: extract_dimensions_def patterns_def record_simps Let_def)

lemma dom_record_match:
  "dom (record_match pattern ms dims) \<subseteq> dom dims \<union> {''width'', ''height'', ''radius'', ''diameter''}"
  by (auto simp: record_match_def split: if_splits)

lemma dom_extract_loop:
  "dom (extract_loop ps text dims) \<subseteq> dom dims \<union> {''width'', ''height'', ''radius'', ''diameter''}"
proof (induction ps arbitrary: dims)
  case Nil
  show ?case by auto
next
  case (Cons p ps)
  have "dom (extract_loop ps text (record_match p (findall p (lower text)) dims))
          \<subseteq> dom (record_match p (findall p (lower text)) dims)
              \<union> {''width'', ''height'', ''radius'', ''diameter''}"
    by (rule Cons.IH)
  also have "\<dots> \<subseteq> dom dims \<union> {''width'', ''height'', ''radius'', ''diameter''}"
    using dom_record_match [of p "findall p (lower text)" dims] by blast
  finally show ?case by simp
qed

text \<open>
  Claim C9. For every input string, the keys of the mapping \<open>_extract_dimensions\<close> returns
  are among \<open>width\<close>, \<open>height\<close>, \<open>radius\<close> and \<open>diameter\<close>; the key \<open>teeth\<close> is never
  produced.
\<close>

theorem extract_dimensions_keys:
  "dom (extract_dimensions text) \<subseteq> {''width'', ''height'', ''radius'', ''diameter''}
   \<and> ''teeth'' \<notin> dom (extract_dimensions text)"
proof
  have "dom (extract_loop patterns text Map.empty)
          \<subseteq> dom (Map.empty :: string \<rightharpoonup> real) \<union> {''width'', ''height'', ''radius'', ''diameter''}"
    by (rule dom_extract_loop)
  then show keys: "dom (extract_dimensions text) \<subseteq> {''width'', ''height'', ''radius'', ''diameter''}"
    unfolding extract_dimensions_def by simp
  show "''teeth'' \<notin> dom (extract_dimensions text)"
  proof
    assume "''teeth'' \<in> dom (extract_dimensions text)"
    with keys have "''teeth'' \<in> {''width'', ''height'', ''radius'', ''diameter''}"
      by (rule subsetD)
    then show False by simp
  qed
qed

text \<open>
  Claim C10. For every input string, each dimension is read off the first element of the
  list \<open>re.findall\<close> returns for a pattern, and a later pattern overwrites an earlier one:
  \<open>width\<close> and \<open>height\<close> come from the first match of their own keyword pattern when it
  has one, and only otherwise from the first match of the pair pattern; \<open>radius\<close> and
  \<open>diameter\<close> come from the first match of their pattern.
\<close>

theorem extract_dimensions_first_match:
  "extract_dimensions text ''width'' =
     (case findall_keyword ''width'' (lower text) of
        w # later \<Rightarrow> Some (py_float w)
      | [] \<Rightarrow> (case findall_pair (lower text) of
                 (a, b) # later \<Rightarrow> Some (py_float a)
               | [] \<Rightarrow> None))
   \<and> extract_dimensions text ''height'' =
     (case findall_keyword ''height'' (lower text) of
        h # later \<Rightarrow> Some (py_float h)
      | [] \<Rightarrow> (case findall_pair (lower text) of
                 (a, b) # later \<Rightarrow> Some (py_float b)
               | [] \<Rightarrow> None))
   \<and> extract_dimensions text ''radius'' =
     (case findall_keyword ''radius'' (lower text) of
        r # later \<Rightarrow> Some (py_float r)
      | [] \<Rightarrow> None)
   \<and> extract_dimensions text ''diameter'' =
     (case findall_keyword ''diameter'' (lower text) of
        r # later \<Rightarrow> Some (py_float r)
      | [] \<Rightarrow> None)"
  by (simp add: extract_dimensions_unfold Let_def split: list.splits prod.splits)

section \<open>Interpreting a description\<close>

lemma py_float_digit: "py_float ''4'' = 4" "py_float ''3'' = 3"
  by (simp_all add: py_float_def is_digit_def digits_value_def digit_value_def)

lemma bedroom_lower: "lower ''bedroom floorplan 4x3m'' = ''bedroom floorplan 4x3m''"
  by code_simp

lemma bedroom_findall:
  "findall_pair ''bedroom floorplan 4x3m'' = [(''4'', ''3'')]"
  "findall_keyword ''width'' ''bedroom floorplan 4x3m'' = []"
  "findall_keyword ''height'' ''bedroom floorplan 4x3m'' = []"
  "findall_keyword ''radius'' ''bedroom floorplan 4x3m'' = []"
  "findall_keyword ''diameter'' ''bedroom floorplan 4x3m'' = []"
  by code_simp+

lemma bedroom_dimensions:
  "extract_dimensions ''bedroom floorplan 4x3m'' = [''width'' \<mapsto> 4, ''height'' \<mapsto> 3]"
  by (simp add: extract_dimensions_unfold bedroom_lower bedroom_findall py_float_digit)

lemma bedroom_category:
  "select_category shape_patterns ''bedroom floorplan 4x3m'' ''geometric'' = ''architectural''"
  by code_simp

lemma bedroom_type:
  "identify_shape_type ''bedroom floorplan 4x3m'' ''architectural'' = ''floorplan''"
  by code_simp

lemma bedroom_style:
  "extract_style_modifiers ''bedroom floorplan 4x3m'' =
     \<lparr>smoothness = ''medium'', complexity = ''medium''\<rparr>"
  by code_simp

text \<open>
  Claim C8. \<open>interpret_shape_request("bedroom floorplan 4x3m")\<close> has category
  \<open>architectural\<close>, type \<open>floorplan\<close> and the dimensions width 4 and height 3; both come
  from the one match of the pair pattern, the patterns for \<open>width\<close> and \<open>height\<close> alone do
  not match.
\<close>

theorem interpret_bedroom_floorplan:
  "interpret_shape_request ''bedroom floorplan 4x3m'' =
     \<lparr>category = ''architectural'', shape_type = ''floorplan'',
      dimensions = [''width'' \<mapsto> 4, ''height'' \<mapsto> 3],
      style = \<lparr>smoothness = ''medium'', complexity = ''medium''\<rparr>,
      description = ''bedroom floorplan 4x3m''\<rparr>
   \<and> findall re_pair (lower ''bedroom floorplan 4x3m'') = [Groups ''4'' ''3'']
   \<and> findall (re_keyword ''width'') (lower ''bedroom floorplan 4x3m'') = []
   \<and> findall (re_keyword ''height'') (lower ''bedroom floorplan 4x3m'') = []"
  by (simp add: interpret_shape_request_def bedroom_lower bedroom_dimensions bedroom_category
        bedroom_type bedroom_style findall_simps bedroom_findall)

lemma empty_dimensions: "extract_dimensions [] = Map.empty"
  by (simp add: extract_dimensions_unfold lower_def)

lemma empty_category: "select_category shape_patterns [] ''geometric'' = ''geometric''"
  by code_simp

lemma geometric_type: "identify_shape_type t ''geometric'' = ''custom''"
  by (simp add: identify_shape_type_def shape_types_def)

lemma empty_style:
  "extract_style_modifiers [] = \<lparr>smoothness = ''medium'', complexity = ''medium''\<rparr>"
  by code_simp

text \<open>
  Claim C4, as stated, fails: for the empty description the category is \<open>geometric\<close> and
  the type is the default \<open>custom\<close> of \<open>_identify_shape_type\<close>, not a value computed from a
  number of sides.
\<close>

theorem interpret_empty_counterexample:
  "\<not> (category (interpret_shape_request []) = ''geometric''
       \<and> shape_type (interpret_shape_request []) \<noteq> ''custom'')"
  by (simp add: interpret_shape_request_def lower_def empty_category geometric_type)

text \<open>
  Claim C4, amended. \<open>interpret_shape_request\<close> of the empty description returns category
  \<open>geometric\<close>, type \<open>custom\<close>, no dimensions, and smoothness and complexity \<open>medium\<close>.
  For the category \<open>geometric\<close> the type is \<open>custom\<close> whatever the text says.
\<close>

theorem interpret_empty:
  "interpret_shape_request [] =
     \<lparr>category = ''geometric'', shape_type = ''custom'', dimensions = Map.empty,
      style = \<lparr>smoothness = ''medium'', complexity = ''medium''\<rparr>, description = []\<rparr>
   \<and> (\<forall>t. identify_shape_type t ''geometric'' = ''custom'')"
  by (simp add: interpret_shape_request_def lower_def empty_dimensions empty_category
        geometric_type empty_style)

section \<open>The glyph table\<close>

lemma letter_keys: "map fst (create_letter_definitions A) = ''ARKCUTIONELSP ''"
  by (simp add: create_letter_definitions_def letter_table_def Let_def)

lemma letter_dom: "dom (letter_definitions A) = set ''ARKCUTIONELSP ''"
  unfolding letter_definitions_def dom_map_of_conv_image_fst
  using letter_keys [of A] by (metis set_map)

lemma letter_card: "card (dom (letter_definitions A)) = 14"
proof -
  have "distinct ''ARKCUTIONELSP ''" by simp
  then have "card (set ''ARKCUTIONELSP '') = length ''ARKCUTIONELSP ''"
    by (rule distinct_card)
  then show ?thesis by (simp add: letter_dom)
qed

lemma letter_none: "c \<notin> set ''ARKCUTIONELSP '' \<Longrightarrow> letter_definitions A c = None"
  using letter_dom [of A] by blast

lemma table_paths:
  "list_all (\<lambda>(c, paths). list_all (\<lambda>p. length p = 2) paths) (create_letter_definitions A)"
  by (simp add: create_letter_definitions_def letter_table_def seg_def Let_def)

lemma letter_paths:
  assumes "letter_definitions A c = Some paths"
  shows "list_all (\<lambda>p. length p = 2) paths"
proof -
  from assms have "(c, paths) \<in> set (create_letter_definitions A)"
    unfolding letter_definitions_def by (rule map_of_SomeD)
  with table_paths [of A] show ?thesis
    unfolding list_all_iff by blast
qed

section \<open>The loop of the vectorizer\<close>

lemma draw_paths_trace:
  "list_all (\<lambda>p. length p = 2) paths \<Longrightarrow>
   draw_paths A L paths x y (fdiv A font_size (fnum A 100)) layer_name d = Inr d' \<Longrightarrow>
   d' = d @ map (spec_segment_line A font_size x y layer_name) paths"
proof (induction paths arbitrary: d)
  case Nil
  then show ?case by simp
next
  case (Cons p paths)
  from Cons.prems(1) have two: "length p = 2" and rest: "list_all (\<lambda>p. length p = 2) paths"
    by simp_all
  from Cons.prems(2) two obtain d1 where
    step: "lib_call L (spec_segment_line A font_size x y layer_name p) d = Inr d1" and
    more: "draw_paths A L paths x y (fdiv A font_size (fnum A 100)) layer_name d1 = Inr d'"
    by (auto simp: spec_segment_line_def split: sum.splits)
  from step have "d1 = d @ [spec_segment_line A font_size x y layer_name p]"
    by (auto simp: lib_call_def split: option.splits)
  moreover from Cons.IH [OF rest more]
  have "d' = d1 @ map (spec_segment_line A font_size x y layer_name) paths" .
  ultimately show ?case by simp
qed

lemma draw_glyph_trace:
  assumes "(case letter_definitions A c of
              Some paths \<Rightarrow> draw_paths A L paths x y (fdiv A font_size (fnum A 100)) layer_name d
            | None \<Rightarrow> Inr d) = Inr d'"
  shows "d' = d @ spec_glyph_lines A font_size x y layer_name c"
proof (cases "letter_definitions A c")
  case None
  with assms show ?thesis by (simp add: spec_glyph_lines_def)
next
  case (Some paths)
  with assms have
    "draw_paths A L paths x y (fdiv A font_size (fnum A 100)) layer_name d = Inr d'"
    by simp
  with letter_paths [OF Some]
  have "d' = d @ map (spec_segment_line A font_size x y layer_name) paths"
    by (rule draw_paths_trace)
  with Some show ?thesis by (simp add: spec_glyph_lines_def)
qed

lemma upt_shift:
  "concat (map f [0..<Suc n]) = f 0 @ concat (map (\<lambda>i. f (Suc i)) [0..<n])"
proof -
  have "[0..<Suc n] = 0 # map Suc [0..<n]"
    by (simp add: upt_conv_Cons map_Suc_upt del: upt_Suc)
  then show ?thesis by (simp add: comp_def del: upt_Suc)
qed

lemma spec_cursor_0: "spec_cursor A x advance 0 = x"
  by (simp add: spec_cursor_def)

lemma spec_cursor_shift:
  "spec_cursor A (fadd A x advance) advance i = spec_cursor A x advance (Suc i)"
  unfolding spec_cursor_def
  using funpow_swap1 [of "\<lambda>v. fadd A v advance" i x] by simp

lemma draw_chars_trace:
  "draw_chars A L cs font_size letter_spacing y layer_name x d = Inr (x', d') \<Longrightarrow>
   x' = spec_cursor A x letter_spacing (length cs) \<and>
   d' = d @ concat (map (\<lambda>i. spec_glyph_lines A font_size (spec_cursor A x letter_spacing i) y
                                 layer_name (cs ! i)) [0..<length cs])"
proof (induction cs arbitrary: x d)
  case Nil
  then show ?case by (simp add: spec_cursor_0)
next
  case (Cons c cs)
  from Cons.prems obtain d1 where
    glyph: "(case letter_definitions A c of
               Some paths \<Rightarrow>
                 draw_paths A L paths x y (fdiv A font_size (fnum A 100)) layer_name d
             | None \<Rightarrow> Inr d) = Inr d1" and
    more: "draw_chars A L cs font_size letter_spacing y layer_name (fadd A x letter_spacing) d1 =
             Inr (x', d')"
    by (auto split: sum.splits)
  from glyph have d1: "d1 = d @ spec_glyph_lines A font_size x y layer_name c"
    by (rule draw_glyph_trace)
  from Cons.IH [OF more] have
    x': "x' = spec_cursor A (fadd A x letter_spacing) letter_spacing (length cs)" and
    d': "d' = d1 @ concat (map (\<lambda>i. spec_glyph_lines A font_size
                                       (spec_cursor A (fadd A x letter_spacing) letter_spacing i) y
                                       layer_name (cs ! i)) [0..<length cs])"
    by simp_all
  have "x' = spec_cursor A x letter_spacing (length (c # cs))"
    using x' by (simp add: spec_cursor_shift)
  moreover have "d' = d @ concat (map (\<lambda>i. spec_glyph_lines A font_size
                                    (spec_cursor A x letter_spacing i) y layer_name
                                    ((c # cs) ! i))
                                  [0..<length (c # cs)])"
    unfolding length_Cons upt_shift using d' d1 by (simp add: spec_cursor_shift spec_cursor_0)
  ultimately show ?case by blast
qed

lemma glyph_lines_length:
  "letter_definitions A c = Some segments \<Longrightarrow>
   length (spec_glyph_lines A font_size x y layer_name c) = length segments"
  by (simp add: spec_glyph_lines_def)

text \<open>What a run of the body that does not raise has done.\<close>

lemma vectorize_steps_success:
  assumes "vectorize_steps A L text output_path font_size layer_name d0 = (Inr r, d)"
  shows "\<exists>x' d'.
           draw_chars A L (upper text) font_size (fmul A font_size (fnum A 0.8))
             (fsub A (fnum A 1000) (fdiv A font_size (fnum A 2))) layer_name
             (fsub A (fnum A 1000)
                (fdiv A (fsub A (fmul A (fnum A (real (length text)))
                                   (fmul A font_size (fnum A 0.8)))
                                (fsub A (fmul A font_size (fnum A 0.8))
                                   (fmul A font_size (fnum A 0.6))))
                        (fnum A 2)))
             (d0 @ [Set_units ''MM'', Modelspace, Add_layer layer_name 2]) = Inr (x', d')
           \<and> d = d' @ [Saveas output_path]
           \<and> r = Vectorized True (''Texto vectorizado exitosamente: '' @ text) output_path
                 \<lparr>info_text = text, info_font_size = font_size,
                  info_position =
                    (fsub A (fnum A 1000)
                       (fdiv A (fsub A (fmul A (fnum A (real (length text)))
                                          (fmul A font_size (fnum A 0.8)))
                                       (fsub A (fmul A font_size (fnum A 0.8))
                                          (fmul A font_size (fnum A 0.6))))
                               (fnum A 2)),
                     fsub A (fnum A 1000) (fdiv A font_size (fnum A 2))),
                  info_width = fsub A (fmul A (fnum A (real (length text)))
                                         (fmul A font_size (fnum A 0.8)))
                                      (fsub A (fmul A font_size (fnum A 0.8))
                                         (fmul A font_size (fnum A 0.6))),
                  info_height = font_size, info_layer = layer_name\<rparr>"
  using assms
  by (auto simp: vectorize_steps_def and_then_def lib_call_def Let_def
           split: sum.splits option.splits prod.splits)

lemma vectorize_text_success:
  assumes "fst (vectorize_text A L text output_path font_size layer_name) = Inr r" "v_success r"
  shows "vectorize_steps A L text output_path font_size layer_name [] =
           (Inr r, snd (vectorize_text A L text output_path font_size layer_name))"
  using assms
  by (auto simp: vectorize_text_def lib_new_def split: sum.splits option.splits prod.splits)

lemma vectorize_text_loop:
  assumes "fst (vectorize_text A L text output_path font_size layer_name) = Inr r" "v_success r"
  shows "\<exists>x' d'.
           draw_chars A L (upper text) font_size (fmul A font_size (fnum A 0.8))
             (snd (info_position (v_text_info r))) layer_name
             (fst (info_position (v_text_info r)))
             [Set_units ''MM'', Modelspace, Add_layer layer_name 2] = Inr (x', d')
           \<and> snd (vectorize_text A L text output_path font_size layer_name) =
               d' @ [Saveas output_path]
           \<and> info_width (v_text_info r) =
               fsub A (fmul A (fnum A (real (length text))) (fmul A font_size (fnum A 0.8)))
                      (fsub A (fmul A font_size (fnum A 0.8)) (fmul A font_size (fnum A 0.6)))
           \<and> info_position (v_text_info r) =
               (fsub A (fnum A 1000) (fdiv A (info_width (v_text_info r)) (fnum A 2)),
                fsub A (fnum A 1000) (fdiv A font_size (fnum A 2)))"
proof -
  from vectorize_steps_success [OF vectorize_text_success [OF assms]]
  show ?thesis by auto
qed

section \<open>Runs in exact arithmetic on the recording library\<close>

lemma upper_examples:
  "upper ''A'' = ''A''" "upper ''I'' = ''I''" "upper ''a'' = ''A''" "upper ''z'' = ''Z''"
  "upper ''?a'' = ''?A''" "upper [CHR 0xDF] = ''SS''"
  by code_simp+

lemmas run_defs =
  vectorize_text_def vectorize_steps_def and_then_def lib_new_def lib_call_def
  recording_lib_def exact_def upper_examples
  letter_definitions_def create_letter_definitions_def letter_table_def seg_def Let_def

lemma run_A:
  "vectorize_text exact recording_lib ''A'' output_path 100 ''ENGRAVE'' =
     (Inr (Vectorized True ''Texto vectorizado exitosamente: A'' output_path
            \<lparr>info_text = ''A'', info_font_size = 100, info_position = (970, 950),
             info_width = 60, info_height = 100, info_layer = ''ENGRAVE''\<rparr>),
      [Set_units ''MM'', Modelspace, Add_layer ''ENGRAVE'' 2,
       Add_line (970, 950) (975, 1050) ''ENGRAVE'',
       Add_line (975, 1050) (980, 950) ''ENGRAVE'',
       Add_line (972.5, 1000) (977.5, 1000) ''ENGRAVE'',
       Saveas output_path])"
  by (simp add: run_defs)

lemma run_a:
  "vectorize_text exact recording_lib ''a'' output_path 100 ''TEXT'' =
     (Inr (Vectorized True ''Texto vectorizado exitosamente: a'' output_path
            \<lparr>info_text = ''a'', info_font_size = 100, info_position = (970, 950),
             info_width = 60, info_height = 100, info_layer = ''TEXT''\<rparr>),
      [Set_units ''MM'', Modelspace, Add_layer ''TEXT'' 2,
       Add_line (970, 950) (975, 1050) ''TEXT'',
       Add_line (975, 1050) (980, 950) ''TEXT'',
       Add_line (972.5, 1000) (977.5, 1000) ''TEXT'',
       Saveas output_path])"
  by (simp add: run_defs)

lemma run_z:
  "vectorize_text exact recording_lib ''z'' output_path 100 ''TEXT'' =
     (Inr (Vectorized True ''Texto vectorizado exitosamente: z'' output_path
            \<lparr>info_text = ''z'', info_font_size = 100, info_position = (970, 950),
             info_width = 60, info_height = 100, info_layer = ''TEXT''\<rparr>),
      [Set_units ''MM'', Modelspace, Add_layer ''TEXT'' 2, Saveas output_path])"
  by (simp add: run_defs)

lemma run_I:
  "vectorize_text exact recording_lib ''I'' output_path 100 ''TEXT'' =
     (Inr (Vectorized True ''Texto vectorizado exitosamente: I'' output_path
            \<lparr>info_text = ''I'', info_font_size = 100, info_position = (970, 950),
             info_width = 60, info_height = 100, info_layer = ''TEXT''\<rparr>),
      [Set_units ''MM'', Modelspace, Add_layer ''TEXT'' 2,
       Add_line (972, 950) (978, 950) ''TEXT'',
       Add_line (975, 950) (975, 1050) ''TEXT'',
       Add_line (972, 1050) (978, 1050) ''TEXT'',
       Add_line (978, 1060) (982, 1060) ''TEXT'',
       Saveas output_path])"
  by (simp add: run_defs)

lemma run_question_a:
  "vectorize_text exact recording_lib ''?a'' ''out.dxf'' 50 ''TEXT'' =
     (Inr (Vectorized True ''Texto vectorizado exitosamente: ?a'' ''out.dxf''
            \<lparr>info_text = ''?a'', info_font_size = 50, info_position = (965, 975),
             info_width = 70, info_height = 50, info_layer = ''TEXT''\<rparr>),
      [Set_units ''MM'', Modelspace, Add_layer ''TEXT'' 2,
       Add_line (1005, 975) (1007.5, 1025) ''TEXT'',
       Add_line (1007.5, 1025) (1010, 975) ''TEXT'',
       Add_line (1006.25, 1000) (1008.75, 1000) ''TEXT'',
       Saveas ''out.dxf''])"
  by (simp add: run_defs)

lemma loop_question_a:
  "draw_chars exact recording_lib ''?A'' 50 40 975 ''TEXT'' 965 [] =
     Inr (1045, [Add_line (1005, 975) (1007.5, 1025) ''TEXT'',
                 Add_line (1007.5, 1025) (1010, 975) ''TEXT'',
                 Add_line (1006.25, 1000) (1008.75, 1000) ''TEXT''])"
  by (simp add: run_defs)

lemma run_sharp_s:
  "fst (vectorize_text exact recording_lib [CHR 0xDF] ''s.dxf'' 100 ''TEXT'') =
     Inr (Vectorized True (''Texto vectorizado exitosamente: '' @ [CHR 0xDF]) ''s.dxf''
            \<lparr>info_text = [CHR 0xDF], info_font_size = 100, info_position = (970, 950),
             info_width = 60, info_height = 100, info_layer = ''TEXT''\<rparr>)"
  "length (filter is_line
     (snd (vectorize_text exact recording_lib [CHR 0xDF] ''s.dxf'' 100 ''TEXT''))) = 22"
  by (simp_all add: run_defs)

lemma loop_sharp_s:
  "\<exists>d. draw_chars exact recording_lib (upper [CHR 0xDF]) 100 (100 * 0.8) 950 ''TEXT'' 970
          [Set_units ''MM'', Modelspace, Add_layer ''TEXT'' 2] = Inr (1130, d)"
  by (simp add: run_defs)

lemma letter_A:
  "letter_definitions exact (CHR ''A'') =
     Some [[(0, 0), (5, 100)], [(5, 100), (10, 0)], [(2.5, 50), (7.5, 50)]]"
  by (simp add: letter_definitions_def create_letter_definitions_def letter_table_def seg_def
        exact_def Let_def)

text \<open>
  Claim C3, as stated, fails: the table does not have sixteen entries with the thirteen
  characters listed; it also defines the letter P.
\<close>

theorem glyph_table_counterexample:
  "\<not> (card (dom (letter_definitions exact)) = 16
       \<and> dom (letter_definitions exact) = set ''ARKCUTIONELS '')"
proof -
  have "CHR ''P'' \<in> dom (letter_definitions exact)" by (simp add: letter_dom)
  moreover have "CHR ''P'' \<notin> set ''ARKCUTIONELS ''" by simp
  ultimately show ?thesis by metis
qed

text \<open>
  Claim C3, amended. The glyph table has fourteen entries, for the characters A, R, K, C, U,
  T, I, O, N, E, L, S, P and the space; every other character has no entry. The vectorizer
  looks up the characters of \<open>text.upper()\<close>: in its loop a character that is not one of the
  fourteen draws nothing, and the cursor moves on by the advance. So a character of the
  text is passed over when its upper-case form has no entry, as for \<open>z\<close>, and a lower-case
  \<open>a\<close> is not passed over: it is drawn as the \<open>A\<close>.
\<close>

theorem glyph_table_entries:
  "dom (letter_definitions A) = set ''ARKCUTIONELSP ''
   \<and> card (dom (letter_definitions A)) = 14
   \<and> length (create_letter_definitions A) = 14
   \<and> (\<forall>c. c \<notin> set ''ARKCUTIONELSP '' \<longrightarrow>
         letter_definitions A c = None
         \<and> draw_chars A L (c # cs) font_size letter_spacing y layer_name current_x d =
             draw_chars A L cs font_size letter_spacing y layer_name
               (fadd A current_x letter_spacing) d)
   \<and> upper ''z'' = ''Z''
   \<and> filter is_line (snd (vectorize_text exact recording_lib ''z'' output_path 100 ''TEXT'')) = []
   \<and> upper ''a'' = ''A''
   \<and> filter is_line (snd (vectorize_text exact recording_lib ''a'' output_path 100 ''TEXT'')) =
        [Add_line (970, 950) (975, 1050) ''TEXT'',
         Add_line (975, 1050) (980, 950) ''TEXT'',
         Add_line (972.5, 1000) (977.5, 1000) ''TEXT'']"
proof -
  have "length (create_letter_definitions A) = length (map fst (create_letter_definitions A))"
    by simp
  also have "\<dots> = 14" unfolding letter_keys by simp
  finally have len: "length (create_letter_definitions A) = 14" .
  have skip: "letter_definitions A c = None
         \<and> draw_chars A L (c # cs) font_size letter_spacing y layer_name current_x d =
             draw_chars A L cs font_size letter_spacing y layer_name
               (fadd A current_x letter_spacing) d"
    if "c \<notin> set ''ARKCUTIONELSP ''" for c
    using letter_none [OF that, of A] by simp
  have z: "filter is_line
             (snd (vectorize_text exact recording_lib ''z'' output_path 100 ''TEXT'')) = []"
    by (simp add: run_z)
  have a: "filter is_line
             (snd (vectorize_text exact recording_lib ''a'' output_path 100 ''TEXT'')) =
        [Add_line (970, 950) (975, 1050) ''TEXT'',
         Add_line (975, 1050) (980, 950) ''TEXT'',
         Add_line (972.5, 1000) (977.5, 1000) ''TEXT'']"
    by (simp add: run_a)
  from letter_dom [of A] letter_card [of A] len skip z a upper_examples(3,4)
  show ?thesis by blast
qed

text \<open>Claim C3, witness: the letter Z, in exact arithmetic on the recording library.\<close>

theorem glyph_table_entries_witness:
  "CHR ''Z'' \<notin> set ''ARKCUTIONELSP ''
   \<and> letter_definitions exact (CHR ''Z'') = None
   \<and> draw_chars exact recording_lib ''Z'' 100 80 950 ''TEXT'' 970 [] = Inr (1050, [])"
proof -
  have z: "CHR ''Z'' \<notin> set ''ARKCUTIONELSP ''" by simp
  from glyph_table_entries
         [of exact recording_lib "[]" 100 80 950 "''TEXT''" 970 "[]" "''z.dxf''"] z
  have "letter_definitions exact (CHR ''Z'') = None
     \<and> draw_chars exact recording_lib ''Z'' 100 80 950 ''TEXT'' 970 [] =
        draw_chars exact recording_lib [] 100 80 950 ''TEXT'' (fadd exact 970 80) []"
    by blast
  with z show ?thesis by (simp add: exact_def)
qed

text \<open>
  Claim C5, as stated, fails in its example: the lines of
  \<open>vectorize_text("A", path, 100, "ENGRAVE")\<close> do not have their \<open>y\<close> between 0 and 100; the
  glyph is moved up to the starting corner, whose \<open>y\<close> is 950.
\<close>

theorem vectorize_A_counterexample:
  "\<not> list_all (line_within 970 (970 + 10) 0 100)
        (filter is_line
           (snd (vectorize_text exact recording_lib ''A'' ''a.dxf'' 100 ''ENGRAVE'')))"
  by (simp add: run_A)

text \<open>
  Claim C5, amended. In every arithmetic, whenever \<open>vectorize_text\<close> reports success, the
  calls it made on the document are: units, model space, the layer; then, character by
  character of \<open>text.upper()\<close>, one line per segment of the character's glyph (none for a
  character without glyph), each with its coordinates multiplied by \<open>font_size / 100\<close> and
  added to the cursor of that character and to the \<open>y\<close> of the starting corner; then the
  save. The cursor of a character is the \<open>x\<close> of the starting corner with the advance
  \<open>font_size * 0.8\<close> added once for every character of \<open>text.upper()\<close> before it. A
  character with a glyph gets as many lines as its glyph has segments. In particular
  \<open>vectorize_text("A", path, 100, "ENGRAVE")\<close> draws exactly three lines, with \<open>x\<close> between
  the cursor 970 and 980 and \<open>y\<close> between 950 and 1050, the range 0 to 100 of the glyph
  above the corner's \<open>y\<close> of 950.
\<close>

theorem vectorize_text_glyph_lines:
  "(fst (vectorize_text A L text output_path font_size layer_name) = Inr r \<and> v_success r \<longrightarrow>
      snd (vectorize_text A L text output_path font_size layer_name) =
        [Set_units ''MM'', Modelspace, Add_layer layer_name 2]
        @ concat (map (\<lambda>i. spec_glyph_lines A font_size
                              (spec_cursor A (fst (info_position (v_text_info r)))
                                 (fmul A font_size (fnum A 0.8)) i)
                              (snd (info_position (v_text_info r))) layer_name
                              (upper text ! i))
                      [0..<length (upper text)])
        @ [Saveas output_path])
   \<and> (letter_definitions A c = Some segments \<longrightarrow>
        length (spec_glyph_lines A font_size x y layer_name c) = length segments)
   \<and> filter is_line
        (snd (vectorize_text exact recording_lib ''A'' output_path 100 ''ENGRAVE'')) =
        [Add_line (970, 950) (975, 1050) ''ENGRAVE'',
         Add_line (975, 1050) (980, 950) ''ENGRAVE'',
         Add_line (972.5, 1000) (977.5, 1000) ''ENGRAVE'']
   \<and> list_all (line_within 970 (970 + 10) 950 (950 + 100))
        (filter is_line
           (snd (vectorize_text exact recording_lib ''A'' output_path 100 ''ENGRAVE'')))"
proof (intro conjI impI)
  assume ok: "fst (vectorize_text A L text output_path font_size layer_name) = Inr r
              \<and> v_success r"
  then obtain x' d' where
    loop: "draw_chars A L (upper text) font_size (fmul A font_size (fnum A 0.8))
             (snd (info_position (v_text_info r))) layer_name
             (fst (info_position (v_text_info r)))
             [Set_units ''MM'', Modelspace, Add_layer layer_name 2] = Inr (x', d')" and
    d: "snd (vectorize_text A L text output_path font_size layer_name) =
          d' @ [Saveas output_path]"
    using vectorize_text_loop [of A L "text" output_path font_size layer_name r] by blast
  from draw_chars_trace [OF loop] d
  show "snd (vectorize_text A L text output_path font_size layer_name) =
        [Set_units ''MM'', Modelspace, Add_layer layer_name 2]
        @ concat (map (\<lambda>i. spec_glyph_lines A font_size
                              (spec_cursor A (fst (info_position (v_text_info r)))
                                 (fmul A font_size (fnum A 0.8)) i)
                              (snd (info_position (v_text_info r))) layer_name
                              (upper text ! i))
                      [0..<length (upper text)])
        @ [Saveas output_path]"
    by simp
next
  assume "letter_definitions A c = Some segments"
  then show "length (spec_glyph_lines A font_size x y layer_name c) = length segments"
    by (rule glyph_lines_length)
next
  show "filter is_line
          (snd (vectorize_text exact recording_lib ''A'' output_path 100 ''ENGRAVE'')) =
        [Add_line (970, 950) (975, 1050) ''ENGRAVE'',
         Add_line (975, 1050) (980, 950) ''ENGRAVE'',
         Add_line (972.5, 1000) (977.5, 1000) ''ENGRAVE'']"
    by (simp add: run_A)
next
  show "list_all (line_within 970 (970 + 10) 950 (950 + 100))
        (filter is_line
           (snd (vectorize_text exact recording_lib ''A'' output_path 100 ''ENGRAVE'')))"
    by (simp add: run_A)
qed

text \<open>
  Claim C5, witness: the text \<open>?a\<close> at font size 50, in exact arithmetic on the recording
  library. The run succeeds; the question mark draws nothing, the A is drawn one advance
  of 40 further.
\<close>

theorem vectorize_text_glyph_lines_witness:
  "fst (vectorize_text exact recording_lib ''?a'' ''out.dxf'' 50 ''TEXT'') =
     Inr (Vectorized True ''Texto vectorizado exitosamente: ?a'' ''out.dxf''
            \<lparr>info_text = ''?a'', info_font_size = 50, info_position = (965, 975),
             info_width = 70, info_height = 50, info_layer = ''TEXT''\<rparr>)
   \<and> v_success (Vectorized True ''Texto vectorizado exitosamente: ?a'' ''out.dxf''
            \<lparr>info_text = ''?a'', info_font_size = 50, info_position = (965, 975),
             info_width = 70, info_height = 50, info_layer = ''TEXT''\<rparr>)
   \<and> snd (vectorize_text exact recording_lib ''?a'' ''out.dxf'' 50 ''TEXT'') =
       [Set_units ''MM'', Modelspace, Add_layer ''TEXT'' 2]
       @ (spec_glyph_lines exact 50 965 975 ''TEXT'' (CHR ''?'')
          @ spec_glyph_lines exact 50 (965 + 40) 975 ''TEXT'' (CHR ''A''))
       @ [Saveas ''out.dxf'']
   \<and> letter_definitions exact (CHR ''A'') =
       Some [[(0, 0), (5, 100)], [(5, 100), (10, 0)], [(2.5, 50), (7.5, 50)]]
   \<and> length (spec_glyph_lines exact 50 1005 975 ''TEXT'' (CHR ''A'')) = 3"
proof -
  let ?r = "Vectorized True ''Texto vectorizado exitosamente: ?a'' ''out.dxf''
            \<lparr>info_text = ''?a'', info_font_size = 50, info_position = (965, 975),
             info_width = 70, info_height = 50, info_layer = ''TEXT''\<rparr>"
  have run: "fst (vectorize_text exact recording_lib ''?a'' ''out.dxf'' 50 ''TEXT'') = Inr ?r
             \<and> v_success ?r"
    by (simp add: run_question_a)
  have two: "[0..<length ''?A''] = [0, 1]"
    by (simp add: upt_conv_Cons)
  from vectorize_text_glyph_lines
         [of exact recording_lib "''?a''" "''out.dxf''" 50 "''TEXT''" ?r "CHR ''A''"
             "[[(0, 0), (5, 100)], [(5, 100), (10, 0)], [(2.5, 50), (7.5, 50)]]" 1005 975]
       run letter_A
  have "snd (vectorize_text exact recording_lib ''?a'' ''out.dxf'' 50 ''TEXT'') =
        [Set_units ''MM'', Modelspace, Add_layer ''TEXT'' 2]
        @ concat (map (\<lambda>i. spec_glyph_lines exact 50
                              (spec_cursor exact (fst (info_position (v_text_info ?r)))
                                 (fmul exact 50 (fnum exact 0.8)) i)
                              (snd (info_position (v_text_info ?r))) ''TEXT''
                              (upper ''?a'' ! i))
                      [0..<length (upper ''?a'')])
        @ [Saveas ''out.dxf'']"
    and len: "length (spec_glyph_lines exact 50 1005 975 ''TEXT'' (CHR ''A'')) = 3"
    by simp_all
  then have "snd (vectorize_text exact recording_lib ''?a'' ''out.dxf'' 50 ''TEXT'') =
       [Set_units ''MM'', Modelspace, Add_layer ''TEXT'' 2]
       @ (spec_glyph_lines exact 50 965 975 ''TEXT'' (CHR ''?'')
          @ spec_glyph_lines exact 50 (965 + 40) 975 ''TEXT'' (CHR ''A''))
       @ [Saveas ''out.dxf'']"
    unfolding upper_examples two by (simp add: spec_cursor_def exact_def)
  with run len letter_A show ?thesis by simp
qed

text \<open>
  Claim C6, as stated, fails: the cursor does not advance once per character of the text.
  For the one-character text U+00DF at font size 100 the corner is computed for one
  character, \<open>(970, 950)\<close> with the width 60, but the loop runs over the two characters
  of its upper-case form \<open>SS\<close>: it draws two glyphs of eleven lines and leaves the cursor
  at 1130, two advances of 80 from the corner and not one.
\<close>

theorem vectorize_cursor_counterexample:
  "(\<exists>m t. fst (vectorize_text exact recording_lib [CHR 0xDF] ''s.dxf'' 100 ''TEXT'') =
            Inr (Vectorized True m ''s.dxf'' t)
          \<and> info_position t = (970, 950) \<and> info_width t = 60)
   \<and> length (filter is_line
        (snd (vectorize_text exact recording_lib [CHR 0xDF] ''s.dxf'' 100 ''TEXT''))) = 22
   \<and> (\<exists>d. draw_chars exact recording_lib (upper [CHR 0xDF]) 100 (100 * 0.8) 950 ''TEXT'' 970
             [Set_units ''MM'', Modelspace, Add_layer ''TEXT'' 2] = Inr (1130, d))
   \<and> (1130 :: real) \<noteq> 970 + real (length [CHR 0xDF]) * (100 * 0.8)"
  using loop_sharp_s by (simp add: run_sharp_s)

text \<open>
  Claim C6, amended. For every text, font size and layer, in every arithmetic: when
  \<open>vectorize_text\<close> reports success, the width it reports is
  \<open>len(text) * letterSpacing - (letterSpacing - letterWidth)\<close> with
  \<open>letterWidth = fontSize * 0.6\<close> and \<open>letterSpacing = fontSize * 0.8\<close>, the starting corner
  is \<open>(1000, 1000)\<close> minus half that width in \<open>x\<close> and half the font size in \<open>y\<close>, each
  operation carried out in the arithmetic, and the loop ran over the characters of
  \<open>text.upper()\<close> from that corner and ended with the cursor that results from adding
  \<open>letterSpacing\<close> to the \<open>x\<close> of the corner once for every character of \<open>text.upper()\<close>. In
  the loop, after any first character, with a glyph or without, the rest is processed
  from the sum of the cursor and the advance, and the final cursor results from adding
  the advance once per character.
\<close>

theorem vectorize_text_cursor:
  "(fst (vectorize_text A L text output_path font_size layer_name) = Inr r \<and> v_success r \<longrightarrow>
      info_width (v_text_info r) =
        fsub A (fmul A (fnum A (real (length text))) (fmul A font_size (fnum A 0.8)))
               (fsub A (fmul A font_size (fnum A 0.8)) (fmul A font_size (fnum A 0.6)))
      \<and> info_position (v_text_info r) =
          (fsub A (fnum A 1000) (fdiv A (info_width (v_text_info r)) (fnum A 2)),
           fsub A (fnum A 1000) (fdiv A font_size (fnum A 2)))
      \<and> (\<exists>d. draw_chars A L (upper text) font_size (fmul A font_size (fnum A 0.8))
                 (snd (info_position (v_text_info r))) layer_name
                 (fst (info_position (v_text_info r)))
                 [Set_units ''MM'', Modelspace, Add_layer layer_name 2] =
               Inr (spec_cursor A (fst (info_position (v_text_info r)))
                      (fmul A font_size (fnum A 0.8)) (length (upper text)), d)))
   \<and> (draw_chars A L (c # cs) font_size letter_spacing y layer_name x d = Inr (x', d') \<longrightarrow>
        (\<exists>d1. draw_chars A L cs font_size letter_spacing y layer_name (fadd A x letter_spacing)
                 d1 = Inr (x', d'))
        \<and> x' = spec_cursor A x letter_spacing (length (c # cs)))"
proof (intro conjI impI)
  assume ok: "fst (vectorize_text A L text output_path font_size layer_name) = Inr r
              \<and> v_success r"
  then obtain x1 d1 where
    loop: "draw_chars A L (upper text) font_size (fmul A font_size (fnum A 0.8))
             (snd (info_position (v_text_info r))) layer_name
             (fst (info_position (v_text_info r)))
             [Set_units ''MM'', Modelspace, Add_layer layer_name 2] = Inr (x1, d1)" and
    w: "info_width (v_text_info r) =
               fsub A (fmul A (fnum A (real (length text))) (fmul A font_size (fnum A 0.8)))
                      (fsub A (fmul A font_size (fnum A 0.8)) (fmul A font_size (fnum A 0.6)))"
    and
    p: "info_position (v_text_info r) =
               (fsub A (fnum A 1000) (fdiv A (info_width (v_text_info r)) (fnum A 2)),
                fsub A (fnum A 1000) (fdiv A font_size (fnum A 2)))"
    using vectorize_text_loop [of A L "text" output_path font_size layer_name r] by blast
  from w show "info_width (v_text_info r) =
        fsub A (fmul A (fnum A (real (length text))) (fmul A font_size (fnum A 0.8)))
               (fsub A (fmul A font_size (fnum A 0.8)) (fmul A font_size (fnum A 0.6)))" .
  from p show "info_position (v_text_info r) =
          (fsub A (fnum A 1000) (fdiv A (info_width (v_text_info r)) (fnum A 2)),
           fsub A (fnum A 1000) (fdiv A font_size (fnum A 2)))" .
  from draw_chars_trace [OF loop] loop
  show "\<exists>d. draw_chars A L (upper text) font_size (fmul A font_size (fnum A 0.8))
                 (snd (info_position (v_text_info r))) layer_name
                 (fst (info_position (v_text_info r)))
                 [Set_units ''MM'', Modelspace, Add_layer layer_name 2] =
               Inr (spec_cursor A (fst (info_position (v_text_info r)))
                      (fmul A font_size (fnum A 0.8)) (length (upper text)), d)"
    by auto
next
  assume "draw_chars A L (c # cs) font_size letter_spacing y layer_name x d = Inr (x', d')"
  then show "\<exists>d1. draw_chars A L cs font_size letter_spacing y layer_name
                     (fadd A x letter_spacing) d1 = Inr (x', d')"
    by (auto split: sum.splits)
next
  assume run: "draw_chars A L (c # cs) font_size letter_spacing y layer_name x d = Inr (x', d')"
  from draw_chars_trace [OF run]
  show "x' = spec_cursor A x letter_spacing (length (c # cs))"
    by (rule conjunct1)
qed

text \<open>
  Claim C6, witness: the text \<open>?a\<close> at font size 50 in exact arithmetic. The width is 70,
  the corner \<open>(965, 975)\<close>; the cursor passes the question mark, which has no glyph, and
  ends at \<open>965 + 40 + 40\<close>.
\<close>

theorem vectorize_text_cursor_witness:
  "fst (vectorize_text exact recording_lib ''?a'' ''out.dxf'' 50 ''TEXT'') =
     Inr (Vectorized True ''Texto vectorizado exitosamente: ?a'' ''out.dxf''
            \<lparr>info_text = ''?a'', info_font_size = 50, info_position = (965, 975),
             info_width = 70, info_height = 50, info_layer = ''TEXT''\<rparr>)
   \<and> (70 :: real) = real (length ''?a'') * (50 * 0.8) - (50 * 0.8 - 50 * 0.6)
   \<and> ((965, 975) :: real \<times> real) = (1000 - 70 / 2, 1000 - 50 / 2)
   \<and> (\<exists>d. draw_chars exact recording_lib ''?A'' 50 (50 * 0.8) 975 ''TEXT'' 965
             [Set_units ''MM'', Modelspace, Add_layer ''TEXT'' 2] = Inr (965 + 40 + 40, d))
   \<and> (\<exists>d d'. draw_chars exact recording_lib ''?A'' 50 40 975 ''TEXT'' 965 [] = Inr (1045, d')
            \<and> draw_chars exact recording_lib ''A'' 50 40 975 ''TEXT'' (965 + 40) d =
                Inr (1045, d'))"
proof -
  let ?r = "Vectorized True ''Texto vectorizado exitosamente: ?a'' ''out.dxf''
            \<lparr>info_text = ''?a'', info_font_size = 50, info_position = (965, 975),
             info_width = 70, info_height = 50, info_layer = ''TEXT''\<rparr>"
  let ?d = "[Add_line (1005, 975) (1007.5, 1025) ''TEXT'',
             Add_line (1007.5, 1025) (1010, 975) ''TEXT'',
             Add_line (1006.25, 1000) (1008.75, 1000) ''TEXT''] :: real call list"
  have run: "fst (vectorize_text exact recording_lib ''?a'' ''out.dxf'' 50 ''TEXT'') = Inr ?r
             \<and> v_success ?r"
    by (simp add: run_question_a)
  have loop: "draw_chars exact recording_lib (CHR ''?'' # ''A'') 50 40 975 ''TEXT'' 965 [] =
                Inr (1045, ?d)"
    using loop_question_a by simp
  have cursor: "spec_cursor exact 965 (fmul exact 50 (fnum exact 0.8)) (length ''?A'') =
                  965 + 40 + 40"
    by (simp add: spec_cursor_def exact_def)
  note inst = vectorize_text_cursor
         [of exact recording_lib "''?a''" "''out.dxf''" 50 "''TEXT''" ?r "CHR ''?''" "''A''" 40 975
             965 "[]" 1045 ?d]
  from inst run have
    "\<exists>d. draw_chars exact recording_lib (upper ''?a'') 50 (fmul exact 50 (fnum exact 0.8))
            (snd (info_position (v_text_info ?r))) ''TEXT''
            (fst (info_position (v_text_info ?r)))
            [Set_units ''MM'', Modelspace, Add_layer ''TEXT'' 2] =
          Inr (spec_cursor exact (fst (info_position (v_text_info ?r)))
                 (fmul exact 50 (fnum exact 0.8)) (length (upper ''?a'')), d)"
    by blast
  then have "\<exists>d. draw_chars exact recording_lib ''?A'' 50 (fmul exact 50 (fnum exact 0.8))
             975 ''TEXT'' 965
             [Set_units ''MM'', Modelspace, Add_layer ''TEXT'' 2] =
           Inr (spec_cursor exact 965 (fmul exact 50 (fnum exact 0.8)) (length ''?A''), d)"
    unfolding upper_examples by simp
  then have first: "\<exists>d. draw_chars exact recording_lib ''?A'' 50 (50 * 0.8) 975 ''TEXT'' 965
             [Set_units ''MM'', Modelspace, Add_layer ''TEXT'' 2] = Inr (965 + 40 + 40, d)"
    unfolding cursor by (simp add: exact_def)
  from inst loop have
    "\<exists>d1. draw_chars exact recording_lib ''A'' 50 40 975 ''TEXT'' (fadd exact 965 40) d1 =
            Inr (1045, ?d)"
    by blast
  then have "\<exists>d1. draw_chars exact recording_lib ''A'' 50 40 975 ''TEXT'' (965 + 40) d1 =
            Inr (1045, ?d)"
    by (simp add: exact_def)
  with loop have second:
    "\<exists>d d'. draw_chars exact recording_lib ''?A'' 50 40 975 ''TEXT'' 965 [] = Inr (1045, d')
            \<and> draw_chars exact recording_lib ''A'' 50 40 975 ''TEXT'' (965 + 40) d =
                Inr (1045, d')"
    by auto
  from run first second show ?thesis by simp
qed

text \<open>
  Claim C7, as stated, fails: no line of \<open>vectorize_text("I", path, 100, "TEXT")\<close> lies at
  \<open>y = 110\<close>; the mark of the I is drawn 110 above the \<open>y\<close> of the starting corner.
\<close>

theorem vectorize_I_counterexample:
  "\<not> list_ex (line_at_y 110)
        (snd (vectorize_text exact recording_lib ''I'' ''i.dxf'' 100 ''TEXT''))"
  by (simp add: run_I)

text \<open>
  Claim C7, amended. \<open>vectorize_text("I", path, 100, "TEXT")\<close> draws four lines. The last
  one is the mark of the glyph: it lies \<open>110 * (100 / 100)\<close> above the \<open>y\<close> of the starting
  corner \<open>(970, 950)\<close>, at 1060, and is the only line there. The three lines before it are
  the body, with \<open>y\<close> between 950 and \<open>950 + 100\<close>. The run is evaluated in exact
  arithmetic, which gives the numbers the floats give at this font size.
\<close>

theorem vectorize_text_I_mark:
  "filter is_line (snd (vectorize_text exact recording_lib ''I'' output_path 100 ''TEXT'')) =
     [Add_line (972, 950) (978, 950) ''TEXT'',
      Add_line (975, 950) (975, 1050) ''TEXT'',
      Add_line (972, 1050) (978, 1050) ''TEXT'',
      Add_line (978, 950 + 110 * (100 / 100)) (982, 950 + 110 * (100 / 100)) ''TEXT'']
   \<and> filter (line_at_y (950 + 110 * (100 / 100)))
        (snd (vectorize_text exact recording_lib ''I'' output_path 100 ''TEXT'')) =
     [Add_line (978, 1060) (982, 1060) ''TEXT'']
   \<and> list_all (line_within 970 980 950 (950 + 100 * (100 / 100)))
        (take 3 (filter is_line
                   (snd (vectorize_text exact recording_lib ''I'' output_path 100 ''TEXT''))))
   \<and> (\<exists>m t. fst (vectorize_text exact recording_lib ''I'' output_path 100 ''TEXT'') =
               Inr (Vectorized True m output_path t) \<and> info_position t = (970, 950))"
  by (simp add: run_I)

section \<open>The generator and the handlers\<close>

lemma create_document_recording:
  "create_document recording_lib new_generator =
     (Inr (), \<lparr>gen_doc = Some [Set_units ''MM'', Modelspace, Add_layer ''CUT'' 1,
                             Add_layer ''ENGRAVE'' 2, Add_layer ''MARK'' 3],
              gen_msp = True\<rparr>)"
  by (simp add: create_document_def and_then_def doc_call_def lib_new_def lib_call_def
        recording_lib_def new_generator_def)

lemma interpret_leaf:
  "category (interpret_shape_request ''a leaf'') = ''organic''"
  "shape_type (interpret_shape_request ''a leaf'') = ''leaf''"
  by code_simp+

lemma interpret_bearing:
  "category (interpret_shape_request ''mechanical bearing'') = ''mechanical''"
  "shape_type (interpret_shape_request ''mechanical bearing'') = ''bearing''"
  by code_simp+

lemma interpret_facade:
  "category (interpret_shape_request ''building facade'') = ''architectural''"
  "shape_type (interpret_shape_request ''building facade'') = ''facade''"
  by code_simp+

lemma interpret_mandala:
  "category (interpret_shape_request ''mandala'') = ''decorative''"
  "shape_type (interpret_shape_request ''mandala'') = ''mandala''"
  by code_simp+

lemma interpret_nothing:
  "category (interpret_shape_request []) = ''geometric''"
  "shape_type (interpret_shape_request []) = ''custom''"
  by code_simp+

lemma interpret_hexagon:
  "category (interpret_shape_request ''a hexagon'') = ''geometric''"
  "shape_type (interpret_shape_request ''a hexagon'') = ''custom''"
  by code_simp+

lemma generate_shape_fresh:
  "fst (generate_shape recording_lib i new_generator) =
     (if category i = ''organic'' then generate_organic_shape (shape_type i) (dimensions i) (style i)
      else if category i = ''mechanical''
        then generate_mechanical_shape (shape_type i) (dimensions i) (style i)
      else if category i = ''architectural''
        then generate_architectural_shape (shape_type i) (dimensions i) (style i)
      else if category i = ''decorative''
        then generate_decorative_shape (shape_type i) (dimensions i) (style i)
      else generate_geometric_shape (shape_type i) (dimensions i) (style i))"
proof -
  have "gen_doc new_generator = None"
    by (simp add: new_generator_def)
  then show ?thesis
    by (simp add: generate_shape_def and_then_def create_document_recording Let_def)
qed

text \<open>
  Claim C1, where the code departs from it. On a new generator and a library that never
  raises, \<open>generate_shape\<close> raises \<open>AttributeError\<close> for the interpretation of a
  description from each family of placeholder branches: an organic shape other than the
  apple, a mechanical shape other than the gear, an architectural shape other than the
  floor plan, a decorative shape, and the geometric default. The helper each of these
  branches calls is defined nowhere.
\<close>

theorem generate_shape_placeholders_raise:
  "fst (generate_shape recording_lib (interpret_shape_request ''a leaf'') new_generator) =
     Inl (AttributeError ''Advanced2DShapeGenerator'' ''_create_leaf_shape'')
   \<and> fst (generate_shape recording_lib (interpret_shape_request ''mechanical bearing'')
          new_generator) =
     Inl (AttributeError ''Advanced2DShapeGenerator'' ''_create_mechanical_part'')
   \<and> fst (generate_shape recording_lib (interpret_shape_request ''building facade'')
          new_generator) =
     Inl (AttributeError ''Advanced2DShapeGenerator'' ''_create_architectural_element'')
   \<and> fst (generate_shape recording_lib (interpret_shape_request ''mandala'') new_generator) =
     Inl (AttributeError ''Advanced2DShapeGenerator'' ''_create_mandala'')
   \<and> fst (generate_shape recording_lib (interpret_shape_request []) new_generator) =
     Inl (AttributeError ''Advanced2DShapeGenerator'' ''_create_polygon'')"
  by (simp add: generate_shape_fresh interpret_leaf interpret_bearing interpret_facade
        interpret_mandala interpret_nothing generate_organic_shape_def
        generate_mechanical_shape_def generate_architectural_shape_def
        generate_decorative_shape_def generate_geometric_shape_def missing_method_def)

lemma create_document_failing:
  "create_document (recording_lib\<lparr>new_raises := Some (LibraryError ''no document'')\<rparr>)
     new_generator = (Inl (LibraryError ''no document''), new_generator)"
  by (simp add: create_document_def and_then_def lib_new_def recording_lib_def)

text \<open>
  Claim C2, as stated, fails for \<open>generate_shape\<close>: it has no handler. The exception
  raised in it for the description \<open>a hexagon\<close> reaches its caller, and so does an
  exception of the library when the document is created, here for \<open>apple logo 100mm\<close>.
\<close>

theorem generate_shape_raises_counterexample:
  "\<not> (\<exists>r. fst (generate_shape recording_lib (interpret_shape_request ''a hexagon'')
                new_generator) = Inr r)
   \<and> \<not> (\<exists>r. fst (generate_shape
                     (recording_lib\<lparr>new_raises := Some (LibraryError ''no document'')\<rparr>)
                     (interpret_shape_request ''apple logo 100mm'') new_generator) = Inr r)"
proof
  show "\<not> (\<exists>r. fst (generate_shape recording_lib (interpret_shape_request ''a hexagon'')
                new_generator) = Inr r)"
    by (simp add: generate_shape_fresh interpret_hexagon generate_geometric_shape_def
        missing_method_def)
  have "gen_doc new_generator = None"
    by (simp add: new_generator_def)
  then show "\<not> (\<exists>r. fst (generate_shape
                     (recording_lib\<lparr>new_raises := Some (LibraryError ''no document'')\<rparr>)
                     (interpret_shape_request ''apple logo 100mm'') new_generator) = Inr r)"
    by (simp add: generate_shape_def and_then_def create_document_failing Let_def)
qed

lemma vectorize_text_returns:
  "\<exists>r. fst (vectorize_text A L text output_path font_size layer_name) = Inr r
       \<and> (if v_success r then \<exists>m t. r = Vectorized True m output_path t
          else \<exists>e. r = Vector_error False (''Error vectorizando texto: '' @ str e) (str e))"
proof (cases "case lib_new L of
                Inl e \<Rightarrow> (Inl e, [])
              | Inr d \<Rightarrow> vectorize_steps A L text output_path font_size layer_name d")
  case (Pair res d)
  show ?thesis
  proof (cases res)
    case (Inl e)
    with Pair show ?thesis
      by (auto simp: vectorize_text_def)
  next
    case (Inr r)
    with Pair obtain d0 where
      "vectorize_steps A L text output_path font_size layer_name d0 = (Inr r, d)"
      by (auto split: sum.splits)
    from vectorize_steps_success [OF this] have "\<exists>m t. r = Vectorized True m output_path t"
      by blast
    with Pair Inr show ?thesis
      by (auto simp: vectorize_text_def)
  qed
qed

lemma save_document_returns:
  "\<exists>s g'. save_document L output_path g = (Inr s, g')"
  by (auto simp: save_document_def split: prod.splits sum.splits)

lemma process_request_returns:
  "\<exists>r. fst (process_request L desc output_path g) = Inr r
       \<and> (case fst (generate_shape L (interpret_shape_request desc) g) of
            Inl e \<Rightarrow>
              r = Process_error False (''Error processing shape request: '' @ str e) (str e)
          | Inr res \<Rightarrow>
              (\<exists>s. r = Processed (s_success s) (s_message s) (interpret_shape_request desc)
                         res s))"
proof (cases "generate_shape L (interpret_shape_request desc) g")
  case (Pair res g1)
  show ?thesis
  proof (cases res)
    case (Inl e)
    with Pair show ?thesis
      by (simp add: process_request_def process_steps_def and_then_def Let_def)
  next
    case (Inr gr)
    obtain s g2 where "save_document L output_path g1 = (Inr s, g2)"
      using save_document_returns by blast
    with Pair Inr show ?thesis
      by (simp add: process_request_def process_steps_def and_then_def Let_def)
  qed
qed

text \<open>
  Claim C2, amended. For every input, every behaviour of the library and every arithmetic,
  \<open>vectorize_text\<close> and \<open>process_request\<close> return a result and raise nothing. The result of
  \<open>vectorize_text\<close> is the success record, or the failure record with the text of the
  exception in its message. When \<open>generate_shape\<close> raises inside \<open>process_request\<close>, the
  result is the failure record with the text of that exception; otherwise it carries the
  success flag and the message of \<open>save_document\<close>.
\<close>

theorem outer_operations_catch:
  "(\<exists>r. fst (vectorize_text A L text output_path font_size layer_name) = Inr r
       \<and> (if v_success r then \<exists>m t. r = Vectorized True m output_path t
          else \<exists>e. r = Vector_error False (''Error vectorizando texto: '' @ str e) (str e)))
   \<and> (\<exists>r. fst (process_request M desc file g) = Inr r
       \<and> (case fst (generate_shape M (interpret_shape_request desc) g) of
            Inl e \<Rightarrow>
              r = Process_error False (''Error processing shape request: '' @ str e) (str e)
          | Inr res \<Rightarrow>
              (\<exists>s. r = Processed (s_success s) (s_message s) (interpret_shape_request desc)
                         res s)))"
  by (rule conjI [OF vectorize_text_returns process_request_returns])

end
